theory Spec2Isabelle
  imports Main "HOL-Library.Word" "HOL-Library.Signed_Division"
begin

unbundle bit_operations_syntax

section \<open>Machine integers and C strings\<close>

text \<open>
  The assembler is written in C. \<open>int32_t\<close> values are modelled as \<open>32 word\<close> (read with
  \<open>sint\<close>, arithmetic wraps around), \<open>uint16_t\<close> as \<open>16 word\<close>, \<open>uint8_t\<close> as \<open>8 word\<close>.
  Loop counters, array lengths and indices, which stay far below the range of \<open>int\<close>, are
  \<open>int\<close> or \<open>nat\<close>. A C string is a \<open>string\<close>: the characters before the terminating NUL.
\<close>

type_synonym int32 = "32 word"
type_synonym uint32 = "32 word"
type_synonym uint16 = "16 word"
type_synonym uint8 = "8 word"

definition toupper :: "char \<Rightarrow> char" where
  "toupper c = (if (97::nat) \<le> of_char c \<and> of_char c \<le> (122::nat)
                then char_of (of_char c - (32::nat)) else c)"

definition tolower :: "char \<Rightarrow> char" where
  "tolower c = (if (65::nat) \<le> of_char c \<and> of_char c \<le> (90::nat)
                then char_of (of_char c + (32::nat)) else c)"

section \<open>symbols.c: the symbol table\<close>

definition SYM_NONE :: uint8 where "SYM_NONE = 0x00"
definition SYM_DEFINED :: uint8 where "SYM_DEFINED = 0x01"
definition SYM_ZEROPAGE :: uint8 where "SYM_ZEROPAGE = 0x02"
definition SYM_CONSTANT :: uint8 where "SYM_CONSTANT = 0x04"
definition SYM_REFERENCED :: uint8 where "SYM_REFERENCED = 0x08"
definition SYM_LOCAL :: uint8 where "SYM_LOCAL = 0x10"
definition SYM_EXPORTED :: uint8 where "SYM_EXPORTED = 0x20"
definition SYM_FORCE_UPDATE :: uint8 where "SYM_FORCE_UPDATE = 0x40"

record Symbol =
  sym_name :: string
  sym_display_name :: string
  sym_value :: int32
  sym_flags :: uint8
  sym_file :: string
  sym_line :: int

text \<open>
  The table is an array of \<open>tab_size\<close> bucket chains; a chain is the list of its symbols from
  the head.
\<close>

record SymbolTable =
  buckets :: "Symbol list list"
  tab_size :: nat
  tab_count :: nat

text \<open>\<open>hash_symbol\<close>: the loop \<open>hash = ((hash << 5) + hash) + toupper(c)\<close> on \<open>unsigned int\<close>.\<close>

fun hash_symbol_loop :: "uint32 \<Rightarrow> string \<Rightarrow> uint32" where
  "hash_symbol_loop h [] = h"
| "hash_symbol_loop h (c # cs) =
     hash_symbol_loop ((push_bit 5 h + h) + of_nat (of_char (toupper c))) cs"

definition hash_symbol :: "string \<Rightarrow> uint32" where
  "hash_symbol str = hash_symbol_loop 5381 str"

fun str_equal_nocase :: "string \<Rightarrow> string \<Rightarrow> bool" where
  "str_equal_nocase (a # as) (b # bs) =
     (if toupper a \<noteq> toupper b then False else str_equal_nocase as bs)"
| "str_equal_nocase [] [] = True"
| "str_equal_nocase [] (b # bs) = False"
| "str_equal_nocase (a # as) [] = False"

definition symbol_table_create :: "nat \<Rightarrow> SymbolTable" where
  "symbol_table_create n = \<lparr>buckets = replicate n [], tab_size = n, tab_count = 0\<rparr>"

definition bucket_index :: "SymbolTable \<Rightarrow> string \<Rightarrow> nat" where
  "bucket_index table name = unat (hash_symbol name) mod tab_size table"

text \<open>
  The walk of \<open>symbol_define\<close> along one chain. \<open>None\<close>: the chain has no entry of that name.
  \<open>Some (r, chain')\<close>: an entry was found; \<open>r\<close> is the returned pointer (\<open>None\<close> for the NULL
  of a refused redefinition of a constant) and \<open>chain'\<close> the chain afterwards.
\<close>

fun symbol_define_chain ::
  "Symbol list \<Rightarrow> string \<Rightarrow> int32 \<Rightarrow> uint8 \<Rightarrow> (Symbol option \<times> Symbol list) option" where
  "symbol_define_chain [] name v fl = None"
| "symbol_define_chain (sy # rest) name v fl =
     (if str_equal_nocase (sym_name sy) name then
        (if sym_flags sy AND SYM_CONSTANT \<noteq> 0 then
           (if fl AND SYM_FORCE_UPDATE \<noteq> 0 then
              (let sy1 = sy\<lparr>sym_flags := sym_flags sy AND NOT SYM_CONSTANT\<rparr>;
                   sy2 = sy1\<lparr>sym_value := v,
                     sym_flags := sym_flags sy1 OR ((fl AND NOT SYM_FORCE_UPDATE) OR SYM_DEFINED)\<rparr>
               in Some (Some sy2, sy2 # rest))
            else Some (None, sy # rest))
         else
           (let sy2 = sy\<lparr>sym_value := v,
                  sym_flags := sym_flags sy OR ((fl AND NOT SYM_FORCE_UPDATE) OR SYM_DEFINED)\<rparr>
            in Some (Some sy2, sy2 # rest)))
      else
        (case symbol_define_chain rest name v fl of
           None \<Rightarrow> None
         | Some (r, rest') \<Rightarrow> Some (r, sy # rest')))"

definition symbol_define ::
  "SymbolTable \<Rightarrow> string \<Rightarrow> int32 \<Rightarrow> uint8 \<Rightarrow> string \<Rightarrow> int \<Rightarrow> Symbol option \<times> SymbolTable" where
  "symbol_define table name v fl file line =
     (let bucket = bucket_index table name;
          chain = buckets table ! bucket
      in case symbol_define_chain chain name v fl of
           Some (r, chain') \<Rightarrow> (r, table\<lparr>buckets := (buckets table)[bucket := chain']\<rparr>)
         | None \<Rightarrow>
             (let sy = \<lparr>sym_name = name, sym_display_name = name, sym_value = v,
                         sym_flags = fl OR SYM_DEFINED, sym_file = file, sym_line = line\<rparr>
              in (Some sy,
                  table\<lparr>buckets := (buckets table)[bucket := sy # chain],
                        tab_count := tab_count table + 1\<rparr>)))"

definition symbol_lookup :: "SymbolTable \<Rightarrow> string \<Rightarrow> Symbol option" where
  "symbol_lookup table name =
     find (\<lambda>sy. str_equal_nocase (sym_name sy) name) (buckets table ! bucket_index table name)"

definition symbol_is_defined :: "SymbolTable \<Rightarrow> string \<Rightarrow> bool" where
  "symbol_is_defined table name =
     (case symbol_lookup table name of
        None \<Rightarrow> False
      | Some sy \<Rightarrow> sym_flags sy AND SYM_DEFINED \<noteq> 0)"

text \<open>The shape \<open>symbol_table_create\<close> establishes and every operation keeps.\<close>

definition table_ok :: "SymbolTable \<Rightarrow> bool" where
  "table_ok table = (0 < tab_size table \<and> length (buckets table) = tab_size table)"


subsection \<open>Anonymous labels\<close>

text \<open>
  The arrays \<open>forward\<close> and \<open>backward\<close> are modelled by the lists of their first
  \<open>forward_count\<close> and \<open>backward_count\<close> entries, the only ones the code reads: appending
  is \<open>array[count++] = label\<close>, and \<open>backward_count = 0\<close> empties the list. A failing
  \<open>realloc\<close> is not modelled.
\<close>

record AnonLabel =
  anon_address :: uint16
  anon_file :: string
  anon_line :: int

record AnonLabels =
  forward :: "AnonLabel list"
  forward_index :: int
  backward :: "AnonLabel list"

definition forward_count :: "AnonLabels \<Rightarrow> int" where
  "forward_count anon = int (length (forward anon))"

definition backward_count :: "AnonLabels \<Rightarrow> int" where
  "backward_count anon = int (length (backward anon))"

definition anon_create :: AnonLabels where
  "anon_create = \<lparr>forward = [], forward_index = 0, backward = []\<rparr>"

definition anon_reset_pass :: "AnonLabels \<Rightarrow> AnonLabels" where
  "anon_reset_pass anon = anon\<lparr>forward_index := 0, backward := []\<rparr>"

definition anon_clear :: "AnonLabels \<Rightarrow> AnonLabels" where
  "anon_clear anon = anon\<lparr>forward := [], forward_index := 0, backward := []\<rparr>"

definition anon_define_forward :: "AnonLabels \<Rightarrow> uint16 \<Rightarrow> string \<Rightarrow> int \<Rightarrow> AnonLabels" where
  "anon_define_forward anon address file line =
     anon\<lparr>forward := forward anon @
       [\<lparr>anon_address = address, anon_file = file, anon_line = line\<rparr>]\<rparr>"

definition anon_define_backward :: "AnonLabels \<Rightarrow> uint16 \<Rightarrow> string \<Rightarrow> int \<Rightarrow> AnonLabels" where
  "anon_define_backward anon address file line =
     anon\<lparr>backward := backward anon @
       [\<lparr>anon_address = address, anon_file = file, anon_line = line\<rparr>]\<rparr>"

text \<open>
  The resolvers take the tracker pointer, \<open>None\<close> for NULL (the statement parser passes
  NULL), and return the \<open>int32_t\<close> result: \<open>-1\<close> or the 16-bit address.
\<close>

definition anon_resolve_forward :: "AnonLabels option \<Rightarrow> int \<Rightarrow> int" where
  "anon_resolve_forward anon count =
     (case anon of
        None \<Rightarrow> -1
      | Some a \<Rightarrow>
          if count < 1 then -1
          else (let target_index = forward_index a + count - 1
                in if target_index \<ge> forward_count a then -1
                   else uint (anon_address (forward a ! nat target_index))))"

definition anon_resolve_backward :: "AnonLabels option \<Rightarrow> int \<Rightarrow> int" where
  "anon_resolve_backward anon count =
     (case anon of
        None \<Rightarrow> -1
      | Some a \<Rightarrow>
          if count < 1 then -1
          else (let target_index = backward_count a - count
                in if target_index < 0 then -1
                   else uint (anon_address (backward a ! nat target_index))))"

definition anon_advance_forward :: "AnonLabels option \<Rightarrow> AnonLabels option" where
  "anon_advance_forward anon =
     (case anon of
        None \<Rightarrow> None
      | Some a \<Rightarrow>
          if forward_index a < forward_count a
          then Some (a\<lparr>forward_index := forward_index a + 1\<rparr>)
          else Some a)"

section \<open>expr.c: expression trees and their evaluation\<close>

datatype UnaryOp = UNARY_NEG | UNARY_NOT | UNARY_COMP | UNARY_LOW | UNARY_HIGH

datatype BinaryOp =
    BINARY_ADD | BINARY_SUB | BINARY_MUL | BINARY_DIV | BINARY_MOD
  | BINARY_AND | BINARY_OR | BINARY_XOR | BINARY_SHL | BINARY_SHR
  | BINARY_EQ | BINARY_NE | BINARY_LT | BINARY_GT | BINARY_LE | BINARY_GE

text \<open>The parser never builds a node with a NULL child; a NULL tree is \<open>None\<close> at the root.\<close>

datatype Expr =
    EXPR_NUMBER int32
  | EXPR_SYMBOL string
  | EXPR_CURRENT
  | EXPR_UNARY UnaryOp Expr
  | EXPR_BINARY BinaryOp Expr Expr

record ExprResult =
  res_value :: int32
  res_defined :: bool
  res_is_zeropage :: bool

text \<open>
  \<open>atoi\<close> of the C library, whose result the code stores in an \<open>int\<close>: optional white
  space, an optional sign, then decimal digits. The library computes
  \<open>(int) strtol(s, NULL, 10)\<close>: \<open>strtol\<close> gives the number the digits denote, held to the
  range of a 64-bit \<open>long\<close>, and the conversion to \<open>int\<close> keeps its low 32 bits.
\<close>

definition isspace :: "char \<Rightarrow> bool" where
  "isspace c = (of_char c = (32::nat) \<or> ((9::nat) \<le> of_char c \<and> of_char c \<le> (13::nat)))"

definition isdigit :: "char \<Rightarrow> bool" where
  "isdigit c = ((48::nat) \<le> of_char c \<and> of_char c \<le> (57::nat))"

fun atoi_digits :: "int \<Rightarrow> string \<Rightarrow> int" where
  "atoi_digits acc [] = acc"
| "atoi_digits acc (c # cs) =
     (if isdigit c then atoi_digits (acc * 10 + (int (of_char c) - 48)) cs else acc)"

definition LONG_MAX :: int where
  "LONG_MAX = 9223372036854775807"

definition LONG_MIN :: int where
  "LONG_MIN = - 9223372036854775808"

definition strtol :: "string \<Rightarrow> int" where
  "strtol s =
     (let v = (case dropWhile isspace s of
                 [] \<Rightarrow> 0
               | c # cs \<Rightarrow>
                   if c = CHR ''-'' then - atoi_digits 0 cs
                   else if c = CHR ''+'' then atoi_digits 0 cs
                   else atoi_digits 0 (c # cs))
      in if v > LONG_MAX then LONG_MAX else if v < LONG_MIN then LONG_MIN else v)"

definition atoi :: "string \<Rightarrow> int" where
  "atoi s = sint (word_of_int (strtol s) :: int32)"

text \<open>\<open>mangle_local_name\<close>, called on names that start with a dot.\<close>

definition mangle_local_name :: "string \<Rightarrow> string option \<Rightarrow> string option" where
  "mangle_local_name name zone =
     (case name of
        [] \<Rightarrow> None
      | c # local_part \<Rightarrow>
          if c \<noteq> CHR ''.'' then None
          else (case zone of
                  None \<Rightarrow> Some (''_global.'' @ local_part)
                | Some z \<Rightarrow>
                    if z = [] then Some (''_global.'' @ local_part)
                    else Some (z @ ''.'' @ local_part)))"

definition is_zp_value :: "int32 \<Rightarrow> bool" where
  "is_zp_value v = (0 \<le> sint v \<and> sint v \<le> 0xFF)"

definition undefined_result :: "ExprResult \<Rightarrow> ExprResult" where
  "undefined_result r = r\<lparr>res_defined := False, res_value := 0\<rparr>"

text \<open>The case \<open>EXPR_SYMBOL\<close> of \<open>expr_eval\<close>; \<open>result\<close> starts as \<open>{0, 1, 0}\<close>.\<close>

definition eval_symbol ::
  "string \<Rightarrow> SymbolTable option \<Rightarrow> AnonLabels option \<Rightarrow> int \<Rightarrow> string option
     \<Rightarrow> ExprResult \<times> AnonLabels option" where
  "eval_symbol name symbols anon pass current_zone =
     (let result = \<lparr>res_value = 0, res_defined = True, res_is_zeropage = False\<rparr>
      in if take 11 name = ''__anon_fwd_'' then
           (let count = atoi (drop 11 name)
            in if pass = 1 then (undefined_result result, anon)
               else (let addr = anon_resolve_forward anon count;
                         r = (if addr < 0 then undefined_result result
                              else result\<lparr>res_value := word_of_int addr, res_defined := True,
                                          res_is_zeropage := (addr \<le> 0xFF)\<rparr>)
                     in (r, anon_advance_forward anon)))
         else if take 12 name = ''__anon_back_'' then
           (let count = atoi (drop 12 name);
                addr = anon_resolve_backward anon count
            in if addr < 0 then (undefined_result result, anon)
               else (result\<lparr>res_value := word_of_int addr, res_defined := True,
                             res_is_zeropage := (addr \<le> 0xFF)\<rparr>, anon))
         else
           (case symbols of
              None \<Rightarrow> (undefined_result result, anon)
            | Some table \<Rightarrow>
                (let name1 = (if take 1 name = ''.''
                              then (case mangle_local_name name current_zone of
                                      Some m \<Rightarrow> m | None \<Rightarrow> name)
                              else name)
                 in case symbol_lookup table name1 of
                      None \<Rightarrow> (undefined_result result, anon)
                    | Some sy \<Rightarrow>
                        if sym_flags sy AND SYM_DEFINED = 0 then (undefined_result result, anon)
                        else (result\<lparr>res_value := sym_value sy, res_defined := True,
                                res_is_zeropage :=
                                  (sym_flags sy AND SYM_ZEROPAGE \<noteq> 0 \<or> is_zp_value (sym_value sy))\<rparr>,
                              anon))))"

definition eval_unary :: "UnaryOp \<Rightarrow> ExprResult \<Rightarrow> ExprResult" where
  "eval_unary op operand =
     (let result = \<lparr>res_value = 0, res_defined = res_defined operand, res_is_zeropage = False\<rparr>
      in case op of
           UNARY_NEG \<Rightarrow> result\<lparr>res_value := - res_value operand\<rparr>
         | UNARY_NOT \<Rightarrow> result\<lparr>res_value := (if res_value operand = 0 then 1 else 0)\<rparr>
         | UNARY_COMP \<Rightarrow> result\<lparr>res_value := NOT (res_value operand)\<rparr>
         | UNARY_LOW \<Rightarrow> result\<lparr>res_value := res_value operand AND 0xFF, res_is_zeropage := True\<rparr>
         | UNARY_HIGH \<Rightarrow>
             result\<lparr>res_value := signed_drop_bit 8 (res_value operand) AND 0xFF,
                    res_is_zeropage := True\<rparr>)"

text \<open>
  C's \<open>/\<close> and \<open>%\<close> truncate towards zero. A shift count is the right operand read as
  \<open>int\<close>; C leaves a negative count or one of 32 and more undefined, where the model takes
  what \<open>push_bit\<close> and \<open>drop_bit\<close> give for \<open>nat (sint r)\<close>.
\<close>

definition binary_value :: "BinaryOp \<Rightarrow> int32 \<Rightarrow> int32 \<Rightarrow> int32" where
  "binary_value op l r =
     (case op of
        BINARY_ADD \<Rightarrow> l + r
      | BINARY_SUB \<Rightarrow> l - r
      | BINARY_MUL \<Rightarrow> l * r
      | BINARY_DIV \<Rightarrow> (if r = 0 then 0 else word_of_int (sint l sdiv sint r))
      | BINARY_MOD \<Rightarrow> (if r = 0 then 0 else word_of_int (sint l smod sint r))
      | BINARY_AND \<Rightarrow> l AND r
      | BINARY_OR \<Rightarrow> l OR r
      | BINARY_XOR \<Rightarrow> l XOR r
      | BINARY_SHL \<Rightarrow> push_bit (nat (sint r)) l
      | BINARY_SHR \<Rightarrow> drop_bit (nat (sint r)) l
      | BINARY_EQ \<Rightarrow> (if l = r then 1 else 0)
      | BINARY_NE \<Rightarrow> (if l \<noteq> r then 1 else 0)
      | BINARY_LT \<Rightarrow> (if sint l < sint r then 1 else 0)
      | BINARY_GT \<Rightarrow> (if sint l > sint r then 1 else 0)
      | BINARY_LE \<Rightarrow> (if sint l \<le> sint r then 1 else 0)
      | BINARY_GE \<Rightarrow> (if sint l \<ge> sint r then 1 else 0))"

definition eval_binary :: "BinaryOp \<Rightarrow> ExprResult \<Rightarrow> ExprResult \<Rightarrow> ExprResult" where
  "eval_binary op left right =
     (let d = (res_defined left \<and> res_defined right);
          v = binary_value op (res_value left) (res_value right)
      in \<lparr>res_value = v, res_defined = d,
          res_is_zeropage = (if d then is_zp_value v else False)\<rparr>)"

text \<open>
  \<open>expr_eval\<close> on a tree. Evaluating a forward reference in pass 2 moves the tracker's
  cursor, so the tracker is threaded through: left operand first, then the right one.
\<close>

fun expr_eval_node ::
  "Expr \<Rightarrow> SymbolTable option \<Rightarrow> AnonLabels option \<Rightarrow> uint16 \<Rightarrow> int \<Rightarrow> string option
     \<Rightarrow> ExprResult \<times> AnonLabels option" where
  "expr_eval_node (EXPR_NUMBER n) symbols anon pc pass zone =
     (\<lparr>res_value = n, res_defined = True, res_is_zeropage = is_zp_value n\<rparr>, anon)"
| "expr_eval_node EXPR_CURRENT symbols anon pc pass zone =
     (\<lparr>res_value = ucast pc, res_defined = True, res_is_zeropage = (pc \<le> 0xFF)\<rparr>, anon)"
| "expr_eval_node (EXPR_SYMBOL name) symbols anon pc pass zone =
     eval_symbol name symbols anon pass zone"
| "expr_eval_node (EXPR_UNARY op e) symbols anon pc pass zone =
     (case expr_eval_node e symbols anon pc pass zone of
        (operand, anon1) \<Rightarrow> (eval_unary op operand, anon1))"
| "expr_eval_node (EXPR_BINARY op l r) symbols anon pc pass zone =
     (case expr_eval_node l symbols anon pc pass zone of
        (left, anon1) \<Rightarrow>
          (case expr_eval_node r symbols anon1 pc pass zone of
             (right, anon2) \<Rightarrow> (eval_binary op left right, anon2)))"

definition expr_eval ::
  "Expr option \<Rightarrow> SymbolTable option \<Rightarrow> AnonLabels option \<Rightarrow> uint16 \<Rightarrow> int \<Rightarrow> string option
     \<Rightarrow> ExprResult \<times> AnonLabels option" where
  "expr_eval expr symbols anon pc pass zone =
     (case expr of
        None \<Rightarrow> (\<lparr>res_value = 0, res_defined = False, res_is_zeropage = False\<rparr>, anon)
      | Some e \<Rightarrow> expr_eval_node e symbols anon pc pass zone)"




section \<open>opcodes.c: the opcode table\<close>

datatype AddressingMode =
    ADDR_IMPLIED | ADDR_ACCUMULATOR | ADDR_IMMEDIATE
  | ADDR_ZEROPAGE | ADDR_ZEROPAGE_X | ADDR_ZEROPAGE_Y
  | ADDR_ABSOLUTE | ADDR_ABSOLUTE_X | ADDR_ABSOLUTE_Y
  | ADDR_INDIRECT | ADDR_INDIRECT_X | ADDR_INDIRECT_Y
  | ADDR_RELATIVE | ADDR_INVALID

record OpcodeEntry =
  oe_mnemonic :: string
  oe_mode :: AddressingMode
  oe_opcode :: uint8
  oe_size :: int
  oe_cycles :: int
  oe_page_penalty :: int

definition OP :: "string \<Rightarrow> AddressingMode \<Rightarrow> uint8 \<Rightarrow> int \<Rightarrow> int \<Rightarrow> int \<Rightarrow> OpcodeEntry" where
  "OP m a opc sz cyc pen =
     \<lparr>oe_mnemonic = m, oe_mode = a, oe_opcode = opc, oe_size = sz, oe_cycles = cyc,
      oe_page_penalty = pen\<rparr>"

text \<open>The entries of \<open>opcode_table\<close> before its NULL sentinel, in the order of the source.\<close>

definition opcode_table :: "OpcodeEntry list" where
  "opcode_table = [
     OP ''ADC'' ADDR_IMMEDIATE 0x69 2 2 0,
     OP ''ADC'' ADDR_ZEROPAGE 0x65 2 3 0,
     OP ''ADC'' ADDR_ZEROPAGE_X 0x75 2 4 0,
     OP ''ADC'' ADDR_ABSOLUTE 0x6D 3 4 0,
     OP ''ADC'' ADDR_ABSOLUTE_X 0x7D 3 4 1,
     OP ''ADC'' ADDR_ABSOLUTE_Y 0x79 3 4 1,
     OP ''ADC'' ADDR_INDIRECT_X 0x61 2 6 0,
     OP ''ADC'' ADDR_INDIRECT_Y 0x71 2 5 1,
     OP ''AND'' ADDR_IMMEDIATE 0x29 2 2 0,
     OP ''AND'' ADDR_ZEROPAGE 0x25 2 3 0,
     OP ''AND'' ADDR_ZEROPAGE_X 0x35 2 4 0,
     OP ''AND'' ADDR_ABSOLUTE 0x2D 3 4 0,
     OP ''AND'' ADDR_ABSOLUTE_X 0x3D 3 4 1,
     OP ''AND'' ADDR_ABSOLUTE_Y 0x39 3 4 1,
     OP ''AND'' ADDR_INDIRECT_X 0x21 2 6 0,
     OP ''AND'' ADDR_INDIRECT_Y 0x31 2 5 1,
     OP ''ASL'' ADDR_ACCUMULATOR 0x0A 1 2 0,
     OP ''ASL'' ADDR_ZEROPAGE 0x06 2 5 0,
     OP ''ASL'' ADDR_ZEROPAGE_X 0x16 2 6 0,
     OP ''ASL'' ADDR_ABSOLUTE 0x0E 3 6 0,
     OP ''ASL'' ADDR_ABSOLUTE_X 0x1E 3 7 0,
     OP ''BCC'' ADDR_RELATIVE 0x90 2 2 1,
     OP ''BCS'' ADDR_RELATIVE 0xB0 2 2 1,
     OP ''BEQ'' ADDR_RELATIVE 0xF0 2 2 1,
     OP ''BMI'' ADDR_RELATIVE 0x30 2 2 1,
     OP ''BNE'' ADDR_RELATIVE 0xD0 2 2 1,
     OP ''BPL'' ADDR_RELATIVE 0x10 2 2 1,
     OP ''BVC'' ADDR_RELATIVE 0x50 2 2 1,
     OP ''BVS'' ADDR_RELATIVE 0x70 2 2 1,
     OP ''BIT'' ADDR_ZEROPAGE 0x24 2 3 0,
     OP ''BIT'' ADDR_ABSOLUTE 0x2C 3 4 0,
     OP ''BRK'' ADDR_IMPLIED 0x00 1 7 0,
     OP ''CLC'' ADDR_IMPLIED 0x18 1 2 0,
     OP ''CLD'' ADDR_IMPLIED 0xD8 1 2 0,
     OP ''CLI'' ADDR_IMPLIED 0x58 1 2 0,
     OP ''CLV'' ADDR_IMPLIED 0xB8 1 2 0,
     OP ''CMP'' ADDR_IMMEDIATE 0xC9 2 2 0,
     OP ''CMP'' ADDR_ZEROPAGE 0xC5 2 3 0,
     OP ''CMP'' ADDR_ZEROPAGE_X 0xD5 2 4 0,
     OP ''CMP'' ADDR_ABSOLUTE 0xCD 3 4 0,
     OP ''CMP'' ADDR_ABSOLUTE_X 0xDD 3 4 1,
     OP ''CMP'' ADDR_ABSOLUTE_Y 0xD9 3 4 1,
     OP ''CMP'' ADDR_INDIRECT_X 0xC1 2 6 0,
     OP ''CMP'' ADDR_INDIRECT_Y 0xD1 2 5 1,
     OP ''CPX'' ADDR_IMMEDIATE 0xE0 2 2 0,
     OP ''CPX'' ADDR_ZEROPAGE 0xE4 2 3 0,
     OP ''CPX'' ADDR_ABSOLUTE 0xEC 3 4 0,
     OP ''CPY'' ADDR_IMMEDIATE 0xC0 2 2 0,
     OP ''CPY'' ADDR_ZEROPAGE 0xC4 2 3 0,
     OP ''CPY'' ADDR_ABSOLUTE 0xCC 3 4 0,
     OP ''DEC'' ADDR_ZEROPAGE 0xC6 2 5 0,
     OP ''DEC'' ADDR_ZEROPAGE_X 0xD6 2 6 0,
     OP ''DEC'' ADDR_ABSOLUTE 0xCE 3 6 0,
     OP ''DEC'' ADDR_ABSOLUTE_X 0xDE 3 7 0,
     OP ''DEX'' ADDR_IMPLIED 0xCA 1 2 0,
     OP ''DEY'' ADDR_IMPLIED 0x88 1 2 0,
     OP ''EOR'' ADDR_IMMEDIATE 0x49 2 2 0,
     OP ''EOR'' ADDR_ZEROPAGE 0x45 2 3 0,
     OP ''EOR'' ADDR_ZEROPAGE_X 0x55 2 4 0,
     OP ''EOR'' ADDR_ABSOLUTE 0x4D 3 4 0,
     OP ''EOR'' ADDR_ABSOLUTE_X 0x5D 3 4 1,
     OP ''EOR'' ADDR_ABSOLUTE_Y 0x59 3 4 1,
     OP ''EOR'' ADDR_INDIRECT_X 0x41 2 6 0,
     OP ''EOR'' ADDR_INDIRECT_Y 0x51 2 5 1,
     OP ''INC'' ADDR_ZEROPAGE 0xE6 2 5 0,
     OP ''INC'' ADDR_ZEROPAGE_X 0xF6 2 6 0,
     OP ''INC'' ADDR_ABSOLUTE 0xEE 3 6 0,
     OP ''INC'' ADDR_ABSOLUTE_X 0xFE 3 7 0,
     OP ''INX'' ADDR_IMPLIED 0xE8 1 2 0,
     OP ''INY'' ADDR_IMPLIED 0xC8 1 2 0,
     OP ''JMP'' ADDR_ABSOLUTE 0x4C 3 3 0,
     OP ''JMP'' ADDR_INDIRECT 0x6C 3 5 0,
     OP ''JSR'' ADDR_ABSOLUTE 0x20 3 6 0,
     OP ''LDA'' ADDR_IMMEDIATE 0xA9 2 2 0,
     OP ''LDA'' ADDR_ZEROPAGE 0xA5 2 3 0,
     OP ''LDA'' ADDR_ZEROPAGE_X 0xB5 2 4 0,
     OP ''LDA'' ADDR_ABSOLUTE 0xAD 3 4 0,
     OP ''LDA'' ADDR_ABSOLUTE_X 0xBD 3 4 1,
     OP ''LDA'' ADDR_ABSOLUTE_Y 0xB9 3 4 1,
     OP ''LDA'' ADDR_INDIRECT_X 0xA1 2 6 0,
     OP ''LDA'' ADDR_INDIRECT_Y 0xB1 2 5 1,
     OP ''LDX'' ADDR_IMMEDIATE 0xA2 2 2 0,
     OP ''LDX'' ADDR_ZEROPAGE 0xA6 2 3 0,
     OP ''LDX'' ADDR_ZEROPAGE_Y 0xB6 2 4 0,
     OP ''LDX'' ADDR_ABSOLUTE 0xAE 3 4 0,
     OP ''LDX'' ADDR_ABSOLUTE_Y 0xBE 3 4 1,
     OP ''LDY'' ADDR_IMMEDIATE 0xA0 2 2 0,
     OP ''LDY'' ADDR_ZEROPAGE 0xA4 2 3 0,
     OP ''LDY'' ADDR_ZEROPAGE_X 0xB4 2 4 0,
     OP ''LDY'' ADDR_ABSOLUTE 0xAC 3 4 0,
     OP ''LDY'' ADDR_ABSOLUTE_X 0xBC 3 4 1,
     OP ''LSR'' ADDR_ACCUMULATOR 0x4A 1 2 0,
     OP ''LSR'' ADDR_ZEROPAGE 0x46 2 5 0,
     OP ''LSR'' ADDR_ZEROPAGE_X 0x56 2 6 0,
     OP ''LSR'' ADDR_ABSOLUTE 0x4E 3 6 0,
     OP ''LSR'' ADDR_ABSOLUTE_X 0x5E 3 7 0,
     OP ''NOP'' ADDR_IMPLIED 0xEA 1 2 0,
     OP ''ORA'' ADDR_IMMEDIATE 0x09 2 2 0,
     OP ''ORA'' ADDR_ZEROPAGE 0x05 2 3 0,
     OP ''ORA'' ADDR_ZEROPAGE_X 0x15 2 4 0,
     OP ''ORA'' ADDR_ABSOLUTE 0x0D 3 4 0,
     OP ''ORA'' ADDR_ABSOLUTE_X 0x1D 3 4 1,
     OP ''ORA'' ADDR_ABSOLUTE_Y 0x19 3 4 1,
     OP ''ORA'' ADDR_INDIRECT_X 0x01 2 6 0,
     OP ''ORA'' ADDR_INDIRECT_Y 0x11 2 5 1,
     OP ''PHA'' ADDR_IMPLIED 0x48 1 3 0,
     OP ''PHP'' ADDR_IMPLIED 0x08 1 3 0,
     OP ''PLA'' ADDR_IMPLIED 0x68 1 4 0,
     OP ''PLP'' ADDR_IMPLIED 0x28 1 4 0,
     OP ''ROL'' ADDR_ACCUMULATOR 0x2A 1 2 0,
     OP ''ROL'' ADDR_ZEROPAGE 0x26 2 5 0,
     OP ''ROL'' ADDR_ZEROPAGE_X 0x36 2 6 0,
     OP ''ROL'' ADDR_ABSOLUTE 0x2E 3 6 0,
     OP ''ROL'' ADDR_ABSOLUTE_X 0x3E 3 7 0,
     OP ''ROR'' ADDR_ACCUMULATOR 0x6A 1 2 0,
     OP ''ROR'' ADDR_ZEROPAGE 0x66 2 5 0,
     OP ''ROR'' ADDR_ZEROPAGE_X 0x76 2 6 0,
     OP ''ROR'' ADDR_ABSOLUTE 0x6E 3 6 0,
     OP ''ROR'' ADDR_ABSOLUTE_X 0x7E 3 7 0,
     OP ''RTI'' ADDR_IMPLIED 0x40 1 6 0,
     OP ''RTS'' ADDR_IMPLIED 0x60 1 6 0,
     OP ''SBC'' ADDR_IMMEDIATE 0xE9 2 2 0,
     OP ''SBC'' ADDR_ZEROPAGE 0xE5 2 3 0,
     OP ''SBC'' ADDR_ZEROPAGE_X 0xF5 2 4 0,
     OP ''SBC'' ADDR_ABSOLUTE 0xED 3 4 0,
     OP ''SBC'' ADDR_ABSOLUTE_X 0xFD 3 4 1,
     OP ''SBC'' ADDR_ABSOLUTE_Y 0xF9 3 4 1,
     OP ''SBC'' ADDR_INDIRECT_X 0xE1 2 6 0,
     OP ''SBC'' ADDR_INDIRECT_Y 0xF1 2 5 1,
     OP ''SEC'' ADDR_IMPLIED 0x38 1 2 0,
     OP ''SED'' ADDR_IMPLIED 0xF8 1 2 0,
     OP ''SEI'' ADDR_IMPLIED 0x78 1 2 0,
     OP ''STA'' ADDR_ZEROPAGE 0x85 2 3 0,
     OP ''STA'' ADDR_ZEROPAGE_X 0x95 2 4 0,
     OP ''STA'' ADDR_ABSOLUTE 0x8D 3 4 0,
     OP ''STA'' ADDR_ABSOLUTE_X 0x9D 3 5 0,
     OP ''STA'' ADDR_ABSOLUTE_Y 0x99 3 5 0,
     OP ''STA'' ADDR_INDIRECT_X 0x81 2 6 0,
     OP ''STA'' ADDR_INDIRECT_Y 0x91 2 6 0,
     OP ''STX'' ADDR_ZEROPAGE 0x86 2 3 0,
     OP ''STX'' ADDR_ZEROPAGE_Y 0x96 2 4 0,
     OP ''STX'' ADDR_ABSOLUTE 0x8E 3 4 0,
     OP ''STY'' ADDR_ZEROPAGE 0x84 2 3 0,
     OP ''STY'' ADDR_ZEROPAGE_X 0x94 2 4 0,
     OP ''STY'' ADDR_ABSOLUTE 0x8C 3 4 0,
     OP ''TAX'' ADDR_IMPLIED 0xAA 1 2 0,
     OP ''TAY'' ADDR_IMPLIED 0xA8 1 2 0,
     OP ''TSX'' ADDR_IMPLIED 0xBA 1 2 0,
     OP ''TXA'' ADDR_IMPLIED 0x8A 1 2 0,
     OP ''TXS'' ADDR_IMPLIED 0x9A 1 2 0,
     OP ''TYA'' ADDR_IMPLIED 0x98 1 2 0,
     OP ''LAX'' ADDR_ZEROPAGE 0xA7 2 3 0,
     OP ''LAX'' ADDR_ZEROPAGE_Y 0xB7 2 4 0,
     OP ''LAX'' ADDR_ABSOLUTE 0xAF 3 4 0,
     OP ''LAX'' ADDR_ABSOLUTE_Y 0xBF 3 4 1,
     OP ''LAX'' ADDR_INDIRECT_X 0xA3 2 6 0,
     OP ''LAX'' ADDR_INDIRECT_Y 0xB3 2 5 1,
     OP ''SAX'' ADDR_ZEROPAGE 0x87 2 3 0,
     OP ''SAX'' ADDR_ZEROPAGE_Y 0x97 2 4 0,
     OP ''SAX'' ADDR_ABSOLUTE 0x8F 3 4 0,
     OP ''SAX'' ADDR_INDIRECT_X 0x83 2 6 0,
     OP ''DCP'' ADDR_ZEROPAGE 0xC7 2 5 0,
     OP ''DCP'' ADDR_ZEROPAGE_X 0xD7 2 6 0,
     OP ''DCP'' ADDR_ABSOLUTE 0xCF 3 6 0,
     OP ''DCP'' ADDR_ABSOLUTE_X 0xDF 3 7 0,
     OP ''DCP'' ADDR_ABSOLUTE_Y 0xDB 3 7 0,
     OP ''DCP'' ADDR_INDIRECT_X 0xC3 2 8 0,
     OP ''DCP'' ADDR_INDIRECT_Y 0xD3 2 8 0,
     OP ''DCM'' ADDR_ZEROPAGE 0xC7 2 5 0,
     OP ''DCM'' ADDR_ZEROPAGE_X 0xD7 2 6 0,
     OP ''DCM'' ADDR_ABSOLUTE 0xCF 3 6 0,
     OP ''DCM'' ADDR_ABSOLUTE_X 0xDF 3 7 0,
     OP ''DCM'' ADDR_ABSOLUTE_Y 0xDB 3 7 0,
     OP ''DCM'' ADDR_INDIRECT_X 0xC3 2 8 0,
     OP ''DCM'' ADDR_INDIRECT_Y 0xD3 2 8 0,
     OP ''ISC'' ADDR_ZEROPAGE 0xE7 2 5 0,
     OP ''ISC'' ADDR_ZEROPAGE_X 0xF7 2 6 0,
     OP ''ISC'' ADDR_ABSOLUTE 0xEF 3 6 0,
     OP ''ISC'' ADDR_ABSOLUTE_X 0xFF 3 7 0,
     OP ''ISC'' ADDR_ABSOLUTE_Y 0xFB 3 7 0,
     OP ''ISC'' ADDR_INDIRECT_X 0xE3 2 8 0,
     OP ''ISC'' ADDR_INDIRECT_Y 0xF3 2 8 0,
     OP ''ISB'' ADDR_ZEROPAGE 0xE7 2 5 0,
     OP ''ISB'' ADDR_ZEROPAGE_X 0xF7 2 6 0,
     OP ''ISB'' ADDR_ABSOLUTE 0xEF 3 6 0,
     OP ''ISB'' ADDR_ABSOLUTE_X 0xFF 3 7 0,
     OP ''ISB'' ADDR_ABSOLUTE_Y 0xFB 3 7 0,
     OP ''ISB'' ADDR_INDIRECT_X 0xE3 2 8 0,
     OP ''ISB'' ADDR_INDIRECT_Y 0xF3 2 8 0,
     OP ''INS'' ADDR_ZEROPAGE 0xE7 2 5 0,
     OP ''INS'' ADDR_ZEROPAGE_X 0xF7 2 6 0,
     OP ''INS'' ADDR_ABSOLUTE 0xEF 3 6 0,
     OP ''INS'' ADDR_ABSOLUTE_X 0xFF 3 7 0,
     OP ''INS'' ADDR_ABSOLUTE_Y 0xFB 3 7 0,
     OP ''INS'' ADDR_INDIRECT_X 0xE3 2 8 0,
     OP ''INS'' ADDR_INDIRECT_Y 0xF3 2 8 0,
     OP ''SLO'' ADDR_ZEROPAGE 0x07 2 5 0,
     OP ''SLO'' ADDR_ZEROPAGE_X 0x17 2 6 0,
     OP ''SLO'' ADDR_ABSOLUTE 0x0F 3 6 0,
     OP ''SLO'' ADDR_ABSOLUTE_X 0x1F 3 7 0,
     OP ''SLO'' ADDR_ABSOLUTE_Y 0x1B 3 7 0,
     OP ''SLO'' ADDR_INDIRECT_X 0x03 2 8 0,
     OP ''SLO'' ADDR_INDIRECT_Y 0x13 2 8 0,
     OP ''ASO'' ADDR_ZEROPAGE 0x07 2 5 0,
     OP ''ASO'' ADDR_ZEROPAGE_X 0x17 2 6 0,
     OP ''ASO'' ADDR_ABSOLUTE 0x0F 3 6 0,
     OP ''ASO'' ADDR_ABSOLUTE_X 0x1F 3 7 0,
     OP ''ASO'' ADDR_ABSOLUTE_Y 0x1B 3 7 0,
     OP ''ASO'' ADDR_INDIRECT_X 0x03 2 8 0,
     OP ''ASO'' ADDR_INDIRECT_Y 0x13 2 8 0,
     OP ''RLA'' ADDR_ZEROPAGE 0x27 2 5 0,
     OP ''RLA'' ADDR_ZEROPAGE_X 0x37 2 6 0,
     OP ''RLA'' ADDR_ABSOLUTE 0x2F 3 6 0,
     OP ''RLA'' ADDR_ABSOLUTE_X 0x3F 3 7 0,
     OP ''RLA'' ADDR_ABSOLUTE_Y 0x3B 3 7 0,
     OP ''RLA'' ADDR_INDIRECT_X 0x23 2 8 0,
     OP ''RLA'' ADDR_INDIRECT_Y 0x33 2 8 0,
     OP ''SRE'' ADDR_ZEROPAGE 0x47 2 5 0,
     OP ''SRE'' ADDR_ZEROPAGE_X 0x57 2 6 0,
     OP ''SRE'' ADDR_ABSOLUTE 0x4F 3 6 0,
     OP ''SRE'' ADDR_ABSOLUTE_X 0x5F 3 7 0,
     OP ''SRE'' ADDR_ABSOLUTE_Y 0x5B 3 7 0,
     OP ''SRE'' ADDR_INDIRECT_X 0x43 2 8 0,
     OP ''SRE'' ADDR_INDIRECT_Y 0x53 2 8 0,
     OP ''LSE'' ADDR_ZEROPAGE 0x47 2 5 0,
     OP ''LSE'' ADDR_ZEROPAGE_X 0x57 2 6 0,
     OP ''LSE'' ADDR_ABSOLUTE 0x4F 3 6 0,
     OP ''LSE'' ADDR_ABSOLUTE_X 0x5F 3 7 0,
     OP ''LSE'' ADDR_ABSOLUTE_Y 0x5B 3 7 0,
     OP ''LSE'' ADDR_INDIRECT_X 0x43 2 8 0,
     OP ''LSE'' ADDR_INDIRECT_Y 0x53 2 8 0,
     OP ''RRA'' ADDR_ZEROPAGE 0x67 2 5 0,
     OP ''RRA'' ADDR_ZEROPAGE_X 0x77 2 6 0,
     OP ''RRA'' ADDR_ABSOLUTE 0x6F 3 6 0,
     OP ''RRA'' ADDR_ABSOLUTE_X 0x7F 3 7 0,
     OP ''RRA'' ADDR_ABSOLUTE_Y 0x7B 3 7 0,
     OP ''RRA'' ADDR_INDIRECT_X 0x63 2 8 0,
     OP ''RRA'' ADDR_INDIRECT_Y 0x73 2 8 0,
     OP ''ANC'' ADDR_IMMEDIATE 0x0B 2 2 0,
     OP ''ANC2'' ADDR_IMMEDIATE 0x2B 2 2 0,
     OP ''ALR'' ADDR_IMMEDIATE 0x4B 2 2 0,
     OP ''ASR'' ADDR_IMMEDIATE 0x4B 2 2 0,
     OP ''ARR'' ADDR_IMMEDIATE 0x6B 2 2 0,
     OP ''XAA'' ADDR_IMMEDIATE 0x8B 2 2 0,
     OP ''ANE'' ADDR_IMMEDIATE 0x8B 2 2 0,
     OP ''AHX'' ADDR_ABSOLUTE_Y 0x9F 3 5 0,
     OP ''AHX'' ADDR_INDIRECT_Y 0x93 2 6 0,
     OP ''SHA'' ADDR_ABSOLUTE_Y 0x9F 3 5 0,
     OP ''SHA'' ADDR_INDIRECT_Y 0x93 2 6 0,
     OP ''TAS'' ADDR_ABSOLUTE_Y 0x9B 3 5 0,
     OP ''SHS'' ADDR_ABSOLUTE_Y 0x9B 3 5 0,
     OP ''SHX'' ADDR_ABSOLUTE_Y 0x9E 3 5 0,
     OP ''SXA'' ADDR_ABSOLUTE_Y 0x9E 3 5 0,
     OP ''SHY'' ADDR_ABSOLUTE_X 0x9C 3 5 0,
     OP ''SYA'' ADDR_ABSOLUTE_X 0x9C 3 5 0,
     OP ''LAS'' ADDR_ABSOLUTE_Y 0xBB 3 4 1,
     OP ''LAR'' ADDR_ABSOLUTE_Y 0xBB 3 4 1,
     OP ''USB'' ADDR_IMMEDIATE 0xEB 2 2 0,
     OP ''DOP'' ADDR_IMMEDIATE 0x80 2 2 0,
     OP ''DOP'' ADDR_ZEROPAGE 0x04 2 3 0,
     OP ''DOP'' ADDR_ZEROPAGE_X 0x14 2 4 0,
     OP ''TOP'' ADDR_ABSOLUTE 0x0C 3 4 0,
     OP ''TOP'' ADDR_ABSOLUTE_X 0x1C 3 4 1,
     OP ''JAM'' ADDR_IMPLIED 0x02 1 0 0,
     OP ''KIL'' ADDR_IMPLIED 0x02 1 0 0,
     OP ''HLT'' ADDR_IMPLIED 0x02 1 0 0]"

text \<open>
  \<open>strcasecmp_local\<close>; the statement parser calls the C library's \<open>strcasecmp\<close>, which is
  zero on the same pairs of strings.
\<close>

fun strcasecmp_local :: "string \<Rightarrow> string \<Rightarrow> int" where
  "strcasecmp_local (a # as) (b # bs) =
     (let c1 = int (of_char (toupper a)); c2 = int (of_char (toupper b))
      in if c1 \<noteq> c2 then c1 - c2 else strcasecmp_local as bs)"
| "strcasecmp_local [] [] = 0"
| "strcasecmp_local [] (b # bs) = 0 - int (of_char (toupper b))"
| "strcasecmp_local (a # as) [] = int (of_char (toupper a))"

definition opcode_find :: "string \<Rightarrow> AddressingMode \<Rightarrow> OpcodeEntry option" where
  "opcode_find mnemonic mode =
     find (\<lambda>e. strcasecmp_local (oe_mnemonic e) mnemonic = 0 \<and> oe_mode e = mode) opcode_table"

section \<open>parser.c: statements and the addressing-mode selector\<close>

record LabelInfo =
  label_name :: string
  is_local :: bool
  is_anon_fwd :: bool
  is_anon_back :: bool

record InstructionInfo =
  ins_mnemonic :: string
  ins_mode :: AddressingMode
  ins_operand :: "Expr option"
  ins_forced_zp :: bool
  ins_forced_abs :: bool
  ins_opcode :: uint8
  ins_size :: int
  ins_cycles :: int
  ins_page_penalty :: int

text \<open>\<open>arg_count\<close> is the length of \<open>dir_args\<close>; a missing string argument is \<open>None\<close>.\<close>

record DirectiveInfo =
  dir_name :: string
  dir_args :: "Expr list"
  dir_string_arg :: "string option"

datatype StmtData =
    STMT_EMPTY
  | STMT_LABEL
  | STMT_INSTRUCTION InstructionInfo
  | STMT_DIRECTIVE DirectiveInfo
  | STMT_ASSIGNMENT string "Expr option"
  | STMT_MACRO_CALL string "string list"
  | STMT_ERROR "string option"

record Statement =
  stmt_data :: StmtData
  stmt_line :: int
  stmt_label :: "LabelInfo option"

record OperandInfo =
  op_expr :: "Expr option"
  has_hash :: bool
  has_x_index :: bool
  has_y_index :: bool
  is_indirect :: bool
  op_forced_zp :: bool
  op_forced_abs :: bool

definition is_branch_instruction :: "string \<Rightarrow> bool" where
  "is_branch_instruction mnemonic =
     list_ex (\<lambda>b. strcasecmp_local mnemonic b = 0)
       [''BCC'', ''BCS'', ''BEQ'', ''BMI'', ''BNE'', ''BPL'', ''BVC'', ''BVS'']"

definition is_accumulator_optional :: "string \<Rightarrow> bool" where
  "is_accumulator_optional mnemonic =
     list_ex (\<lambda>b. strcasecmp_local mnemonic b = 0) [''ASL'', ''LSR'', ''ROL'', ''ROR'']"

definition detect_addressing_mode ::
  "string \<Rightarrow> Expr option \<Rightarrow> bool \<Rightarrow> bool \<Rightarrow> bool \<Rightarrow> bool \<Rightarrow> int32 \<Rightarrow> bool \<Rightarrow> AddressingMode" where
  "detect_addressing_mode mnemonic expr hash x_index y_index indirect val value_known =
     (if is_branch_instruction mnemonic then ADDR_RELATIVE
      else if hash then ADDR_IMMEDIATE
      else case expr of
        None \<Rightarrow>
          (if is_accumulator_optional mnemonic \<and> opcode_find mnemonic ADDR_ACCUMULATOR \<noteq> None
           then ADDR_ACCUMULATOR else ADDR_IMPLIED)
      | Some e \<Rightarrow>
          if (case e of EXPR_SYMBOL name \<Rightarrow>
                strcasecmp_local name ''A'' = 0 \<and> is_accumulator_optional mnemonic
              | _ \<Rightarrow> False)
          then ADDR_ACCUMULATOR
          else if indirect then
            (if x_index then ADDR_INDIRECT_X
             else if y_index then ADDR_INDIRECT_Y
             else ADDR_INDIRECT)
          else if x_index then
            (if value_known \<and> 0 \<le> sint val \<and> sint val \<le> 0xFF
                \<and> opcode_find mnemonic ADDR_ZEROPAGE_X \<noteq> None
             then ADDR_ZEROPAGE_X else ADDR_ABSOLUTE_X)
          else if y_index then
            (if value_known \<and> 0 \<le> sint val \<and> sint val \<le> 0xFF
                \<and> opcode_find mnemonic ADDR_ZEROPAGE_Y \<noteq> None
             then ADDR_ZEROPAGE_Y else ADDR_ABSOLUTE_Y)
          else if value_known \<and> 0 \<le> sint val \<and> sint val \<le> 0xFF
                \<and> opcode_find mnemonic ADDR_ZEROPAGE \<noteq> None
          then ADDR_ZEROPAGE
          else ADDR_ABSOLUTE)"

definition instruction_of ::
  "string \<Rightarrow> AddressingMode \<Rightarrow> OperandInfo \<Rightarrow> OpcodeEntry \<Rightarrow> InstructionInfo" where
  "instruction_of mnemonic mode operand op =
     \<lparr>ins_mnemonic = mnemonic, ins_mode = mode, ins_operand = op_expr operand,
      ins_forced_zp = op_forced_zp operand, ins_forced_abs = op_forced_abs operand,
      ins_opcode = oe_opcode op, ins_size = oe_size op, ins_cycles = oe_cycles op,
      ins_page_penalty = oe_page_penalty op\<rparr>"

text \<open>
  \<open>parse_instruction\<close> once \<open>parse_operand\<close> has read the operand: the operand is evaluated
  against the parser's symbol table, program counter and pass (with no anonymous-label
  tracker and no zone), the mode is selected and the opcode looked up.
\<close>

definition parse_instruction ::
  "SymbolTable \<Rightarrow> uint16 \<Rightarrow> int \<Rightarrow> string \<Rightarrow> OperandInfo \<Rightarrow> StmtData" where
  "parse_instruction parser_symbols parser_pc parser_pass mnemonic operand =
     (let (val, value_known) =
            (case op_expr operand of
               None \<Rightarrow> (0, False)
             | Some e \<Rightarrow>
                 (let result = fst (expr_eval (Some e) (Some parser_symbols) None parser_pc
                                      parser_pass None)
                  in (res_value result, res_defined result)));
          mode = detect_addressing_mode mnemonic (op_expr operand) (has_hash operand)
                   (has_x_index operand) (has_y_index operand) (is_indirect operand)
                   val value_known
      in case opcode_find mnemonic mode of
           Some op \<Rightarrow> STMT_INSTRUCTION (instruction_of mnemonic mode operand op)
         | None \<Rightarrow>
             if \<not> value_known \<and> parser_pass = 1 then
               (case opcode_find mnemonic ADDR_ABSOLUTE of
                  Some op \<Rightarrow> STMT_INSTRUCTION (instruction_of mnemonic ADDR_ABSOLUTE operand op)
                | None \<Rightarrow> STMT_ERROR (Some ''invalid addressing mode for instruction''))
             else STMT_ERROR (Some ''invalid addressing mode for instruction''))"

text \<open>
  A source line as \<open>parser_parse_line\<close> has recognised it, before the operand of an
  instruction is evaluated: the label it attaches and the construct that follows.
\<close>

datatype LineBody =
    L_EMPTY
  | L_INSTRUCTION string OperandInfo
  | L_DIRECTIVE DirectiveInfo
  | L_ASSIGNMENT string "Expr option"
  | L_MACRO_CALL string "string list"
  | L_ERROR string

record SourceLine =
  src_label :: "LabelInfo option"
  src_body :: LineBody
  src_line :: int

definition parser_parse_line :: "SymbolTable \<Rightarrow> uint16 \<Rightarrow> int \<Rightarrow> SourceLine \<Rightarrow> Statement" where
  "parser_parse_line parser_symbols parser_pc parser_pass l =
     \<lparr>stmt_data =
        (case src_body l of
           L_EMPTY \<Rightarrow> (if src_label l = None then STMT_EMPTY else STMT_LABEL)
         | L_INSTRUCTION mnemonic operand \<Rightarrow>
             parse_instruction parser_symbols parser_pc parser_pass mnemonic operand
         | L_DIRECTIVE d \<Rightarrow> STMT_DIRECTIVE d
         | L_ASSIGNMENT name e \<Rightarrow> STMT_ASSIGNMENT name e
         | L_MACRO_CALL name args \<Rightarrow> STMT_MACRO_CALL name args
         | L_ERROR msg \<Rightarrow> STMT_ERROR (Some msg)),
      stmt_line = src_line l,
      stmt_label = src_label l\<rparr>"


section \<open>assembler.c: the two-pass driver\<close>

text \<open>
  The header that declares the driver's state is not part of the sources at hand, so the
  record below is read off the uses in \<open>assembler.c\<close>. Modelled from the spec: the memory
  image is a flat 64 KiB byte array with a parallel 64 KiB array of written marks
  (\<open>ASM_MEMORY_SIZE\<close>), here two functions on the cell indices; the program counters and the
  bounds of the written cells are 16-bit. The limits \<open>ASM_MAX_ERRORS\<close> and
  \<open>ASM_MAX_WARNINGS\<close> and the origin \<open>ASM_DEFAULT_ORG\<close>, whose values the header fixes, are
  carried as the fields \<open>max_errors\<close>, \<open>max_warnings\<close> and \<open>default_org\<close>. What the C code
  prints to \<open>stderr\<close> is collected in \<open>messages\<close>. The static counter of the \<open>!zone\<close>
  directive is the field \<open>anon_zone_counter\<close>.
\<close>

definition ASM_MEMORY_SIZE :: nat where
  "ASM_MEMORY_SIZE = 65536"

record AssembledLine =
  line_stmt :: Statement
  line_address :: uint16
  line_zone :: "string option"
  line_bytes :: "uint8 list"
  line_byte_count :: int
  line_cycles :: int
  line_page_penalty :: int

record Assembler =
  memory :: "nat \<Rightarrow> uint8"
  written :: "nat \<Rightarrow> bool"
  lowest_addr :: uint16
  highest_addr :: uint16
  pc :: uint16
  real_pc :: uint16
  org :: uint16
  in_pseudopc :: bool
  symbols :: SymbolTable
  anon_labels :: AnonLabels
  current_zone :: "string option"
  pass :: int
  errors :: int
  warnings :: int
  messages :: "string list"
  current_file :: string
  current_line :: int
  lines :: "AssembledLine list"
  loop_depth :: int
  anon_zone_counter :: int
  max_errors :: int
  max_warnings :: int
  default_org :: uint16

definition assembler_create :: "int \<Rightarrow> int \<Rightarrow> uint16 \<Rightarrow> Assembler" where
  "assembler_create max_err max_warn dflt_org =
     \<lparr>memory = (\<lambda>_. 0), written = (\<lambda>_. False),
      lowest_addr = 0xFFFF, highest_addr = 0,
      pc = dflt_org, real_pc = dflt_org, org = dflt_org, in_pseudopc = False,
      symbols = symbol_table_create 1024, anon_labels = anon_create,
      current_zone = None, pass = 1, errors = 0, warnings = 0, messages = [],
      current_file = [], current_line = 0, lines = [], loop_depth = 0,
      anon_zone_counter = 0,
      max_errors = max_err, max_warnings = max_warn, default_org = dflt_org\<rparr>"

text \<open>\<open>assembler_reset\<close> with no command-line definitions to re-apply.\<close>

definition assembler_reset :: "Assembler \<Rightarrow> Assembler" where
  "assembler_reset asm =
     asm\<lparr>memory := (\<lambda>_. 0), written := (\<lambda>_. False),
         symbols := symbol_table_create 1024, current_zone := None,
         anon_labels := anon_clear (anon_labels asm), lines := [],
         pc := default_org asm, real_pc := default_org asm, org := default_org asm,
         lowest_addr := 0xFFFF, highest_addr := 0, in_pseudopc := False,
         pass := 1, errors := 0, warnings := 0\<rparr>"

definition assembler_error :: "Assembler \<Rightarrow> string \<Rightarrow> Assembler" where
  "assembler_error asm msg =
     (if errors asm \<ge> max_errors asm then asm
      else asm\<lparr>messages := messages asm @ [''error: '' @ msg], errors := errors asm + 1\<rparr>)"

definition assembler_warning :: "Assembler \<Rightarrow> string \<Rightarrow> Assembler" where
  "assembler_warning asm msg =
     (if warnings asm \<ge> max_warnings asm then asm
      else asm\<lparr>messages := messages asm @ [''warning: '' @ msg], warnings := warnings asm + 1\<rparr>)"

subsection \<open>Code emission\<close>

text \<open>The local \<open>uint16_t output_addr\<close> of \<open>assembler_emit_byte\<close>.\<close>

definition output_addr :: "Assembler \<Rightarrow> uint16" where
  "output_addr asm = (if in_pseudopc asm then real_pc asm else pc asm)"

definition assembler_emit_byte :: "Assembler \<Rightarrow> uint8 \<Rightarrow> Assembler" where
  "assembler_emit_byte asm byte =
     (let oa = output_addr asm;
          asm1 = (if oa < lowest_addr asm then asm\<lparr>lowest_addr := oa\<rparr> else asm);
          asm2 = (if oa > highest_addr asm1 then asm1\<lparr>highest_addr := oa\<rparr> else asm1);
          asm3 = asm2\<lparr>memory := (memory asm2)(unat oa := byte),
                      written := (written asm2)(unat oa := True)\<rparr>
      in asm3\<lparr>pc := pc asm3 + 1, real_pc := real_pc asm3 + 1\<rparr>)"

definition assembler_emit_word :: "Assembler \<Rightarrow> uint16 \<Rightarrow> Assembler" where
  "assembler_emit_word asm w =
     assembler_emit_byte (assembler_emit_byte asm (ucast (w AND 0xFF)))
       (ucast (drop_bit 8 w AND 0xFF))"

fun assembler_emit_bytes :: "Assembler \<Rightarrow> uint8 list \<Rightarrow> Assembler" where
  "assembler_emit_bytes asm [] = asm"
| "assembler_emit_bytes asm (b # bs) = assembler_emit_bytes (assembler_emit_byte asm b) bs"

definition assembler_set_pc :: "Assembler \<Rightarrow> uint16 \<Rightarrow> Assembler" where
  "assembler_set_pc asm p =
     (let asm1 = asm\<lparr>pc := p\<rparr>;
          asm2 = (if \<not> in_pseudopc asm1 then asm1\<lparr>real_pc := p\<rparr> else asm1)
      in if pass asm2 = 1 \<and> length (lines asm2) = 0 then asm2\<lparr>org := p\<rparr> else asm2)"

definition assembler_advance_pc :: "Assembler \<Rightarrow> int \<Rightarrow> Assembler" where
  "assembler_advance_pc asm count =
     asm\<lparr>pc := pc asm + word_of_int count, real_pc := real_pc asm + word_of_int count\<rparr>"

definition INT_MIN :: int where
  "INT_MIN = - 2147483648"

definition assembler_calc_branch_offset :: "uint16 \<Rightarrow> uint16 \<Rightarrow> int" where
  "assembler_calc_branch_offset target p =
     (let offset = uint target - (uint p + 2)
      in if offset < -128 \<or> offset > 127 then INT_MIN else offset)"

definition assembler_is_zeropage :: "int \<Rightarrow> bool" where
  "assembler_is_zeropage addr = (addr \<ge> 0 \<and> addr \<le> 0xFF)"

definition add_assembled_line :: "Assembler \<Rightarrow> Statement \<Rightarrow> uint16 \<Rightarrow> Assembler" where
  "add_assembled_line asm stmt address =
     (let l = \<lparr>line_stmt = stmt, line_address = address, line_zone = current_zone asm,
               line_bytes = [], line_byte_count = 0,
               line_cycles = (case stmt_data stmt of
                                STMT_INSTRUCTION info \<Rightarrow> ins_cycles info | _ \<Rightarrow> 0),
               line_page_penalty = (case stmt_data stmt of
                                STMT_INSTRUCTION info \<Rightarrow> ins_page_penalty info | _ \<Rightarrow> 0)\<rparr>
      in asm\<lparr>lines := lines asm @ [l]\<rparr>)"

text \<open>
  An evaluation against the driver's state: \<open>expr_eval\<close> with the driver's symbol table,
  tracker, program counter, pass and zone; the tracker it leaves is stored back.
\<close>

definition eval_in :: "Assembler \<Rightarrow> Expr option \<Rightarrow> ExprResult \<times> Assembler" where
  "eval_in asm e =
     (case expr_eval e (Some (symbols asm)) (Some (anon_labels asm)) (pc asm) (pass asm)
             (current_zone asm) of
        (result, anon') \<Rightarrow>
          (result, (case anon' of Some a \<Rightarrow> asm\<lparr>anon_labels := a\<rparr> | None \<Rightarrow> asm)))"

subsection \<open>Labels\<close>

definition define_label :: "Assembler \<Rightarrow> LabelInfo \<Rightarrow> Assembler" where
  "define_label asm label =
     (let fl = (if assembler_is_zeropage (uint (pc asm))
                then SYM_DEFINED OR SYM_ZEROPAGE else SYM_DEFINED)
      in if is_anon_fwd label then
           asm\<lparr>anon_labels := anon_define_forward (anon_labels asm) (pc asm)
                                 (current_file asm) (current_line asm)\<rparr>
         else if is_anon_back label then
           asm\<lparr>anon_labels := anon_define_backward (anon_labels asm) (pc asm)
                                 (current_file asm) (current_line asm)\<rparr>
         else if is_local label then
           (let local_part = (if take 1 (label_name label) = ''.''
                              then drop 1 (label_name label) else label_name label);
                mangled = (case current_zone asm of
                             Some z \<Rightarrow> z @ ''.'' @ local_part
                           | None \<Rightarrow> ''_global.'' @ local_part)
            in asm\<lparr>symbols := snd (symbol_define (symbols asm) mangled (ucast (pc asm)) fl
                                     (current_file asm) (current_line asm))\<rparr>)
         else
           asm\<lparr>symbols := snd (symbol_define (symbols asm) (label_name label) (ucast (pc asm)) fl
                                  (current_file asm) (current_line asm)),
               current_zone := Some (label_name label)\<rparr>)"

subsection \<open>Instructions\<close>

text \<open>
  \<open>assembler_assemble_instruction\<close> returns its status, the state, and the instruction
  record, which pass 2 may rewrite in place (mode and opcode).
\<close>

definition reoptimise :: "InstructionInfo \<Rightarrow> int32 \<Rightarrow> InstructionInfo" where
  "reoptimise info operand_value =
     (let new_mode =
            (if assembler_is_zeropage (sint operand_value) then
               (case ins_mode info of
                  ADDR_ABSOLUTE \<Rightarrow>
                    (if opcode_find (ins_mnemonic info) ADDR_ZEROPAGE \<noteq> None
                     then ADDR_ZEROPAGE else ins_mode info)
                | ADDR_ABSOLUTE_X \<Rightarrow>
                    (if opcode_find (ins_mnemonic info) ADDR_ZEROPAGE_X \<noteq> None
                     then ADDR_ZEROPAGE_X else ins_mode info)
                | ADDR_ABSOLUTE_Y \<Rightarrow>
                    (if opcode_find (ins_mnemonic info) ADDR_ZEROPAGE_Y \<noteq> None
                     then ADDR_ZEROPAGE_Y else ins_mode info)
                | _ \<Rightarrow> ins_mode info)
             else ins_mode info)
      in if new_mode \<noteq> ins_mode info then
           (case opcode_find (ins_mnemonic info) new_mode of
              Some op \<Rightarrow>
                (if oe_size op = ins_size info
                 then info\<lparr>ins_mode := new_mode, ins_opcode := oe_opcode op\<rparr>
                 else info)
            | None \<Rightarrow> info)
         else info)"

definition emit_instruction :: "Assembler \<Rightarrow> InstructionInfo \<Rightarrow> int32 \<Rightarrow> Assembler" where
  "emit_instruction asm info operand_value =
     (let asm1 = assembler_emit_byte asm (ins_opcode info)
      in if ins_size info = 1 then asm1
         else if ins_size info = 2 then assembler_emit_byte asm1 (ucast (operand_value AND 0xFF))
         else if ins_size info = 3 then assembler_emit_word asm1 (ucast (operand_value AND 0xFFFF))
         else asm1)"

definition assembler_assemble_instruction ::
  "Assembler \<Rightarrow> InstructionInfo \<Rightarrow> int \<times> Assembler \<times> InstructionInfo" where
  "assembler_assemble_instruction asm info =
     (if ins_mode info = ADDR_ACCUMULATOR \<or> ins_mode info = ADDR_IMPLIED then
        (if pass asm = 2 then (0, assembler_emit_byte asm (ins_opcode info), info)
         else (0, assembler_advance_pc asm 1, info))
      else
        (let (operand_value, value_defined, asm1) =
               (case ins_operand info of
                  None \<Rightarrow> (0, True, asm)
                | Some e \<Rightarrow>
                    (case eval_in asm (Some e) of
                       (result, asm') \<Rightarrow> (res_value result, res_defined result, asm')))
         in if ins_operand info \<noteq> None \<and> pass asm1 = 2 \<and> \<not> value_defined then
              (-1, assembler_error asm1 ''undefined symbol in operand'', info)
            else if ins_mode info = ADDR_RELATIVE then
              (if pass asm1 = 2 then
                 (let offset = assembler_calc_branch_offset (ucast operand_value) (pc asm1)
                  in if offset = INT_MIN then
                       (-1, assembler_error asm1 ''branch target out of range'', info)
                     else
                       (0, assembler_emit_byte (assembler_emit_byte asm1 (ins_opcode info))
                             (word_of_int offset), info))
               else (0, assembler_advance_pc asm1 2, info))
            else
              (let info1 = (if pass asm1 = 2 \<and> value_defined
                            then reoptimise info operand_value else info)
               in if pass asm1 = 2 then (0, emit_instruction asm1 info1 operand_value, info1)
                  else (0, assembler_advance_pc asm1 (ins_size info1), info1))))"


subsection \<open>Directives\<close>

fun assemble_byte_args :: "Assembler \<Rightarrow> Expr list \<Rightarrow> int \<times> Assembler" where
  "assemble_byte_args asm [] = (0, asm)"
| "assemble_byte_args asm (e # es) =
     (case eval_in asm (Some e) of
        (result, asm1) \<Rightarrow>
          if pass asm1 = 2 \<and> \<not> res_defined result then
            (-1, assembler_error asm1 ''undefined symbol in !byte directive'')
          else if pass asm1 = 2 then
            (let asm2 = (if sint (res_value result) < -128 \<or> sint (res_value result) > 255
                         then assembler_warning asm1 ''byte value truncated'' else asm1)
             in assemble_byte_args
                  (assembler_emit_byte asm2 (ucast (res_value result AND 0xFF))) es)
          else assemble_byte_args (assembler_advance_pc asm1 1) es)"

definition assemble_byte_directive :: "Assembler \<Rightarrow> DirectiveInfo \<Rightarrow> int \<times> Assembler" where
  "assemble_byte_directive asm dir = assemble_byte_args asm (dir_args dir)"

fun assemble_word_args :: "Assembler \<Rightarrow> Expr list \<Rightarrow> int \<times> Assembler" where
  "assemble_word_args asm [] = (0, asm)"
| "assemble_word_args asm (e # es) =
     (case eval_in asm (Some e) of
        (result, asm1) \<Rightarrow>
          if pass asm1 = 2 \<and> \<not> res_defined result then
            (-1, assembler_error asm1 ''undefined symbol in !word directive'')
          else if pass asm1 = 2 then
            assemble_word_args
              (assembler_emit_word asm1 (ucast (res_value result AND 0xFFFF))) es
          else assemble_word_args (assembler_advance_pc asm1 2) es)"

definition assemble_word_directive :: "Assembler \<Rightarrow> DirectiveInfo \<Rightarrow> int \<times> Assembler" where
  "assemble_word_directive asm dir = assemble_word_args asm (dir_args dir)"

definition string_bytes :: "string \<Rightarrow> uint8 list" where
  "string_bytes str = map (\<lambda>c. of_nat (of_char c)) str"

definition assemble_text_directive :: "Assembler \<Rightarrow> DirectiveInfo \<Rightarrow> int \<times> Assembler" where
  "assemble_text_directive asm dir =
     (case dir_string_arg dir of
        None \<Rightarrow> (-1, assembler_error asm ''!text requires a string argument'')
      | Some str \<Rightarrow>
          if pass asm = 2 then (0, assembler_emit_bytes asm (string_bytes str))
          else (0, assembler_advance_pc asm (int (length str))))"

definition assemble_null_directive :: "Assembler \<Rightarrow> DirectiveInfo \<Rightarrow> int \<times> Assembler" where
  "assemble_null_directive asm dir =
     (case dir_string_arg dir of
        None \<Rightarrow> (-1, assembler_error asm ''!null requires a string argument'')
      | Some str \<Rightarrow>
          if pass asm = 2
          then (0, assembler_emit_byte (assembler_emit_bytes asm (string_bytes str)) 0x00)
          else (0, assembler_advance_pc asm (int (length str) + 1)))"

definition assemble_fill_directive :: "Assembler \<Rightarrow> DirectiveInfo \<Rightarrow> int \<times> Assembler" where
  "assemble_fill_directive asm dir =
     (case dir_args dir of
        [] \<Rightarrow> (-1, assembler_error asm ''!fill requires count argument'')
      | a0 # rest \<Rightarrow>
          (case eval_in asm (Some a0) of
             (count_result, asm1) \<Rightarrow>
               if \<not> res_defined count_result then
                 (-1, assembler_error asm1 ''!fill count must be constant'')
               else
                 (let count = sint (res_value count_result)
                  in if count < 0 \<or> count > 65536 then
                       (-1, assembler_error asm1 ''!fill count out of range'')
                     else
                       (case rest of
                          [] \<Rightarrow>
                            (if pass asm1 = 2
                             then (0, ((\<lambda>a. assembler_emit_byte a 0) ^^ nat count) asm1)
                             else (0, assembler_advance_pc asm1 count))
                        | a1 # _ \<Rightarrow>
                            (case eval_in asm1 (Some a1) of
                               (value_result, asm2) \<Rightarrow>
                                 if pass asm2 = 2 \<and> \<not> res_defined value_result then
                                   (-1, assembler_error asm2 ''!fill value must be defined'')
                                 else
                                   (let fill_value = ucast (res_value value_result AND 0xFF)
                                    in if pass asm2 = 2
                                       then (0, ((\<lambda>a. assembler_emit_byte a fill_value)
                                                   ^^ nat count) asm2)
                                       else (0, assembler_advance_pc asm2 count)))))))"

definition assemble_org_directive :: "Assembler \<Rightarrow> DirectiveInfo \<Rightarrow> int \<times> Assembler" where
  "assemble_org_directive asm dir =
     (case dir_args dir of
        [] \<Rightarrow> (-1, assembler_error asm ''org directive requires address'')
      | a0 # _ \<Rightarrow>
          (case eval_in asm (Some a0) of
             (result, asm1) \<Rightarrow>
               if \<not> res_defined result then
                 (-1, assembler_error asm1 ''org address must be constant'')
               else (0, assembler_set_pc asm1 (ucast (res_value result AND 0xFFFF)))))"

definition assemble_skip_directive :: "Assembler \<Rightarrow> DirectiveInfo \<Rightarrow> int \<times> Assembler" where
  "assemble_skip_directive asm dir =
     (case dir_args dir of
        [] \<Rightarrow> (-1, assembler_error asm ''!skip requires count argument'')
      | a0 # _ \<Rightarrow>
          (case eval_in asm (Some a0) of
             (count_result, asm1) \<Rightarrow>
               if \<not> res_defined count_result then
                 (-1, assembler_error asm1 ''!skip count must be constant'')
               else
                 (let count = sint (res_value count_result)
                  in if count < 0 \<or> count > 65536 then
                       (-1, assembler_error asm1 ''!skip count out of range'')
                     else (0, assembler_advance_pc asm1 count))))"

definition assemble_align_directive :: "Assembler \<Rightarrow> DirectiveInfo \<Rightarrow> int \<times> Assembler" where
  "assemble_align_directive asm dir =
     (case dir_args dir of
        [] \<Rightarrow> (-1, assembler_error asm ''!align requires alignment argument'')
      | a0 # rest \<Rightarrow>
          (case eval_in asm (Some a0) of
             (align_result, asm1) \<Rightarrow>
               if \<not> res_defined align_result then
                 (-1, assembler_error asm1 ''!align value must be constant'')
               else
                 (let alignment = sint (res_value align_result)
                  in if alignment \<le> 0 \<or> alignment > 65536 then
                       (-1, assembler_error asm1 ''!align value out of range'')
                     else
                       (let asm2 = (if and alignment (alignment - 1) \<noteq> 0
                                    then assembler_warning asm1 ''!align value is not a power of 2''
                                    else asm1);
                            remainder = uint (pc asm2) mod alignment;
                            padding = (if remainder = 0 then 0 else alignment - remainder)
                        in case rest of
                             [] \<Rightarrow>
                               (if pass asm2 = 2
                                then (0, ((\<lambda>a. assembler_emit_byte a 0) ^^ nat padding) asm2)
                                else (0, assembler_advance_pc asm2 padding))
                           | a1 # _ \<Rightarrow>
                               (case eval_in asm2 (Some a1) of
                                  (value_result, asm3) \<Rightarrow>
                                    if pass asm3 = 2 \<and> \<not> res_defined value_result then
                                      (-1, assembler_error asm3 ''!align fill value must be defined'')
                                    else
                                      (let fill_value = ucast (res_value value_result AND 0xFF)
                                       in if pass asm3 = 2
                                          then (0, ((\<lambda>a. assembler_emit_byte a fill_value)
                                                      ^^ nat padding) asm3)
                                          else (0, assembler_advance_pc asm3 padding)))))))"

text \<open>\<open>snprintf(digits, sizeof(digits), "%d", sys_addr)\<close> into \<open>char digits[6]\<close>.\<close>

fun decimal_digits :: "nat \<Rightarrow> string" where
  "decimal_digits n =
     (if n < 10 then [char_of (48 + n)]
      else decimal_digits (n div 10) @ [char_of (48 + n mod 10)])"

definition format_d :: "int \<Rightarrow> string" where
  "format_d i = (if i < 0 then CHR ''-'' # decimal_digits (nat (- i)) else decimal_digits (nat i))"

definition snprintf_d :: "nat \<Rightarrow> int \<Rightarrow> string" where
  "snprintf_d bufsize i = take (bufsize - 1) (format_d i)"

text \<open>
  The search of \<open>assemble_basic_directive\<close> for the number of digits of a defaulted SYS
  address: the \<open>for\<close> loop over \<open>digit_count = 4, 5\<close>, which leaves the last \<open>addr\<close> it
  computed.
\<close>

definition basic_default_addr :: "int \<Rightarrow> int" where
  "basic_default_addr start_pc =
     (let base_size = 2 + 2 + 1 + 1 + 2;
          addr4 = start_pc + base_size + 4;
          addr5 = start_pc + base_size + 5
      in if (if addr4 \<ge> 10000 then 5 else 4) = (4::int) then addr4 else addr5)"

definition assemble_basic_directive :: "Assembler \<Rightarrow> DirectiveInfo \<Rightarrow> int \<times> Assembler" where
  "assemble_basic_directive asm dir =
     (let r1 = (case dir_args dir of
                  [] \<Rightarrow> (0::int, 10, asm)
                | a0 # _ \<Rightarrow>
                    (case eval_in asm (Some a0) of
                       (r, asm1) \<Rightarrow>
                         if \<not> res_defined r \<and> pass asm1 = 2
                         then (-1, 0, assembler_error asm1 ''!basic line number must be constant'')
                         else (0, sint (res_value r), asm1)))
      in case r1 of
           (rc1, line_number, asm1) \<Rightarrow>
             if rc1 < 0 then (-1, asm1)
             else
               (let r2 = (case dir_args dir of
                            a0 # a1 # _ \<Rightarrow>
                              (case eval_in asm1 (Some a1) of
                                 (r, asm2) \<Rightarrow>
                                   if \<not> res_defined r \<and> pass asm2 = 2
                                   then (-1, 0, False,
                                         assembler_error asm2 ''!basic SYS address must be constant'')
                                   else (0, sint (res_value r), True, asm2))
                          | _ \<Rightarrow> (0::int, 0, False, asm1))
                in case r2 of
                     (rc2, sys_addr0, explicit_addr, asm2) \<Rightarrow>
                       if rc2 < 0 then (-1, asm2)
                       else
                         (let start_pc = uint (pc asm2);
                              sys_addr = (if \<not> explicit_addr then basic_default_addr start_pc
                                          else sys_addr0);
                              digit_count = (if sys_addr \<ge> 10000 then 5 else 4);
                              total_size = 2 + 2 + 1 + digit_count + 1 + 2;
                              link_addr = start_pc + total_size - 2
                          in if pass asm2 = 2 then
                               (let a1 = assembler_emit_byte asm2 (word_of_int link_addr);
                                    a2 = assembler_emit_byte a1 (word_of_int (link_addr div 256));
                                    a3 = assembler_emit_byte a2 (word_of_int line_number);
                                    a4 = assembler_emit_byte a3 (word_of_int (line_number div 256));
                                    a5 = assembler_emit_byte a4 0x9E;
                                    a6 = assembler_emit_bytes a5
                                           (string_bytes (snprintf_d 6 sys_addr));
                                    a7 = assembler_emit_byte a6 0x00;
                                    a8 = assembler_emit_byte a7 0x00
                                in (0, assembler_emit_byte a8 0x00))
                             else (0, assembler_advance_pc asm2 total_size))))"

definition assembler_pseudopc_start :: "Assembler \<Rightarrow> uint16 \<Rightarrow> int \<times> Assembler" where
  "assembler_pseudopc_start asm pseudo_addr =
     (if in_pseudopc asm then (-1, assembler_error asm ''nested !pseudopc not allowed'')
      else (0, asm\<lparr>real_pc := pc asm, in_pseudopc := True, pc := pseudo_addr\<rparr>))"

definition assembler_pseudopc_end :: "Assembler \<Rightarrow> int \<times> Assembler" where
  "assembler_pseudopc_end asm =
     (if \<not> in_pseudopc asm then (-1, assembler_error asm ''!realpc without matching !pseudopc'')
      else (0, asm\<lparr>pc := real_pc asm, in_pseudopc := False\<rparr>))"

text \<open>
  \<open>assembler_assemble_directive\<close>. The directives \<open>pet\<close>, \<open>scr\<close>, \<open>binary\<close>/\<open>bin\<close> and
  \<open>cpu\<close>, which need the character tables, the file system and the CPU state, are outside
  this model: on them the result is \<open>None\<close>.
\<close>

definition assembler_assemble_directive ::
  "Assembler \<Rightarrow> DirectiveInfo \<Rightarrow> (int \<times> Assembler) option" where
  "assembler_assemble_directive asm dir =
     (let name = dir_name dir
      in if name \<in> set [''byte'', ''by'', ''db'', ''08''] then Some (assemble_byte_directive asm dir)
         else if name \<in> set [''word'', ''wo'', ''dw'', ''16''] then
           Some (assemble_word_directive asm dir)
         else if name \<in> set [''text'', ''tx''] then Some (assemble_text_directive asm dir)
         else if name = ''pet'' then None
         else if name = ''scr'' then None
         else if name = ''null'' then Some (assemble_null_directive asm dir)
         else if name \<in> set [''fill'', ''fi''] then Some (assemble_fill_directive asm dir)
         else if name \<in> set [''skip'', ''res''] then Some (assemble_skip_directive asm dir)
         else if name = ''align'' then Some (assemble_align_directive asm dir)
         else if name = ''org'' then Some (assemble_org_directive asm dir)
         else if name \<in> set [''binary'', ''bin''] then None
         else if name = ''basic'' then Some (assemble_basic_directive asm dir)
         else if name \<in> set [''source'', ''src'', ''include''] then Some (0, asm)
         else if name \<in> set [''macro'', ''endmacro'', ''endm''] then Some (0, asm)
         else if name \<in> set [''for'', ''while'', ''end''] then Some (0, asm)
         else if name = ''pseudopc'' then
           (case dir_args dir of
              [] \<Rightarrow> Some (-1, assembler_error asm ''!pseudopc requires an address'')
            | a0 # _ \<Rightarrow>
                (case eval_in asm (Some a0) of
                   (result, asm1) \<Rightarrow>
                     if \<not> res_defined result then
                       Some (-1, assembler_error asm1 ''!pseudopc address must be a defined value'')
                     else Some (assembler_pseudopc_start asm1 (ucast (res_value result)))))
         else if name = ''realpc'' then Some (assembler_pseudopc_end asm)
         else if name = ''cpu'' then None
         else if name \<in> set [''zone'', ''zn''] then
           (let zone_name =
                  (case dir_string_arg dir of
                     Some str \<Rightarrow> Some str
                   | None \<Rightarrow>
                       (case dir_args dir of
                          EXPR_SYMBOL sname # _ \<Rightarrow> Some sname
                        | _ \<Rightarrow> None))
            in case zone_name of
                 Some z \<Rightarrow>
                   if z \<noteq> [] then Some (0, asm\<lparr>current_zone := Some z\<rparr>)
                   else Some (0, asm\<lparr>anon_zone_counter := anon_zone_counter asm + 1,
                                    current_zone :=
                                      Some (''_zone_'' @ format_d (anon_zone_counter asm + 1))\<rparr>)
               | None \<Rightarrow>
                   Some (0, asm\<lparr>anon_zone_counter := anon_zone_counter asm + 1,
                               current_zone :=
                                 Some (''_zone_'' @ format_d (anon_zone_counter asm + 1))\<rparr>))
         else if name = ''error'' then
           Some (-1, assembler_error asm
                       (case dir_string_arg dir of Some str \<Rightarrow> str | None \<Rightarrow> ''user error''))
         else if name \<in> set [''warn'', ''warning''] then
           Some (0, assembler_warning asm
                      (case dir_string_arg dir of Some str \<Rightarrow> str | None \<Rightarrow> ''user warning''))
         else Some (0, assembler_warning asm (''unknown directive !'' @ name @ '' ignored'')))"

subsection \<open>Assignments and statements\<close>

definition assembler_in_loop :: "Assembler \<Rightarrow> bool" where
  "assembler_in_loop asm = (loop_depth asm > 0)"

definition assemble_assignment :: "Assembler \<Rightarrow> string \<Rightarrow> Expr option \<Rightarrow> int \<times> Assembler" where
  "assemble_assignment asm name e =
     (case eval_in asm e of
        (result, asm1) \<Rightarrow>
          (let fl0 = (if pass asm1 = 2 \<or> assembler_in_loop asm1
                      then SYM_DEFINED OR SYM_FORCE_UPDATE else SYM_CONSTANT);
               fl = (if res_defined result \<and> assembler_is_zeropage (sint (res_value result))
                     then fl0 OR SYM_ZEROPAGE else fl0)
           in (0, asm1\<lparr>symbols := snd (symbol_define (symbols asm1) name (res_value result) fl
                                         (current_file asm1) (current_line asm1))\<rparr>)))"

text \<open>
  \<open>assembler_assemble_statement\<close> returns its status, the state, and the statement, whose
  instruction record pass 2 may have rewritten.
\<close>

definition assembler_assemble_statement ::
  "Assembler \<Rightarrow> Statement \<Rightarrow> (int \<times> Assembler \<times> Statement) option" where
  "assembler_assemble_statement asm0 stmt =
     (let asm1 = asm0\<lparr>current_line := stmt_line stmt\<rparr>;
          asm = (case stmt_label stmt of
                   None \<Rightarrow> asm1
                 | Some label \<Rightarrow>
                     if pass asm1 = 1 then define_label asm1 label
                     else if \<not> is_local label \<and> \<not> is_anon_fwd label \<and> \<not> is_anon_back label
                     then asm1\<lparr>current_zone := Some (label_name label)\<rparr>
                     else asm1)
      in case stmt_data stmt of
           STMT_EMPTY \<Rightarrow> Some (0, asm, stmt)
         | STMT_LABEL \<Rightarrow> Some (0, asm, stmt)
         | STMT_INSTRUCTION info \<Rightarrow>
             (case assembler_assemble_instruction asm info of
                (rc, asm', info') \<Rightarrow> Some (rc, asm', stmt\<lparr>stmt_data := STMT_INSTRUCTION info'\<rparr>))
         | STMT_DIRECTIVE dir \<Rightarrow>
             (case assembler_assemble_directive asm dir of
                None \<Rightarrow> None
              | Some (rc, asm') \<Rightarrow> Some (rc, asm', stmt))
         | STMT_ASSIGNMENT name e \<Rightarrow>
             (case assemble_assignment asm name e of (rc, asm') \<Rightarrow> Some (rc, asm', stmt))
         | STMT_MACRO_CALL name args \<Rightarrow>
             Some (-1, assembler_error asm ''macros not yet implemented'', stmt)
         | STMT_ERROR msg \<Rightarrow>
             Some (-1, assembler_error asm (case msg of Some m \<Rightarrow> m | None \<Rightarrow> ''parse error''),
                   stmt))"


subsection \<open>Pass 1\<close>

definition is_source_directive :: "Statement \<Rightarrow> bool" where
  "is_source_directive stmt =
     (case stmt_data stmt of
        STMT_DIRECTIVE dir \<Rightarrow> dir_name dir \<in> set [''source'', ''src'', ''include'']
      | _ \<Rightarrow> False)"

definition is_conditional_directive :: "Statement \<Rightarrow> bool" where
  "is_conditional_directive stmt =
     (case stmt_data stmt of
        STMT_DIRECTIVE dir \<Rightarrow> dir_name dir \<in> set [''if'', ''else'', ''endif'', ''ifdef'', ''ifndef'']
      | _ \<Rightarrow> False)"

definition is_macro_directive :: "Statement \<Rightarrow> bool" where
  "is_macro_directive stmt =
     (case stmt_data stmt of
        STMT_DIRECTIVE dir \<Rightarrow> dir_name dir = ''macro''
      | _ \<Rightarrow> False)"

definition is_loop_directive :: "Statement \<Rightarrow> bool" where
  "is_loop_directive stmt =
     (case stmt_data stmt of
        STMT_DIRECTIVE dir \<Rightarrow> dir_name dir \<in> set [''for'', ''while'']
      | _ \<Rightarrow> False)"

definition is_macro_call :: "Statement \<Rightarrow> bool" where
  "is_macro_call stmt = (case stmt_data stmt of STMT_MACRO_CALL _ _ \<Rightarrow> True | _ \<Rightarrow> False)"

text \<open>
  The loop of \<open>assembler_pass1_internal\<close> over the lines of one source text. The parser
  shares the driver's symbol table; its program counter is set after each line is parsed,
  before the statement is assembled, so a line is parsed with the counter the line before it
  started at. Conditional assembly, includes, macros and loops re-enter the parser on other
  text and are outside this model: on such a line the result is \<open>None\<close>. The end of the list
  is the end of the input.
\<close>

fun pass1_loop :: "Assembler \<Rightarrow> uint16 \<Rightarrow> SourceLine list \<Rightarrow> Assembler option" where
  "pass1_loop asm parser_pc [] = Some asm"
| "pass1_loop asm parser_pc (l # ls) =
     (let line_pc = pc asm;
          stmt = parser_parse_line (symbols asm) parser_pc 1 l;
          parser_pc' = pc asm;
          asm1 = asm\<lparr>current_line := stmt_line stmt\<rparr>
      in if is_conditional_directive stmt \<or> is_source_directive stmt \<or> is_macro_directive stmt
            \<or> is_loop_directive stmt \<or> is_macro_call stmt
         then None
         else
           (case assembler_assemble_statement (add_assembled_line asm1 stmt line_pc) stmt of
              None \<Rightarrow> None
            | Some (rc, asm2, stmt') \<Rightarrow>
                if errors asm2 \<ge> max_errors asm2
                then Some (assembler_error asm2 ''too many errors, stopping'')
                else pass1_loop asm2 parser_pc' ls))"

definition assembler_pass1_internal ::
  "Assembler \<Rightarrow> SourceLine list \<Rightarrow> string \<Rightarrow> (int \<times> Assembler) option" where
  "assembler_pass1_internal asm src filename =
     (let asm1 = asm\<lparr>pass := 1, current_file := filename\<rparr>
      in case pass1_loop asm1 (pc asm1) src of
           None \<Rightarrow> None
         | Some asm2 \<Rightarrow> Some (if errors asm2 > 0 then -1 else 0, asm2))"

definition assembler_pass1 ::
  "Assembler \<Rightarrow> SourceLine list \<Rightarrow> string \<Rightarrow> (int \<times> Assembler) option" where
  "assembler_pass1 asm src filename = assembler_pass1_internal (asm\<lparr>pc := org asm\<rparr>) src filename"

subsection \<open>Pass 2\<close>

text \<open>One turn of the loop of \<open>assembler_pass2\<close>: the state and the line record afterwards.\<close>

definition pass2_line :: "Assembler \<Rightarrow> AssembledLine \<Rightarrow> (Assembler \<times> AssembledLine) option" where
  "pass2_line asm0 l =
     (let stmt = line_stmt l;
          asm1 = asm0\<lparr>current_line := stmt_line stmt, pc := line_address l\<rparr>;
          start_pc = output_addr asm1;
          asm2 = asm1\<lparr>current_zone := line_zone l\<rparr>;
          asm3 = (case stmt_label stmt of
                    None \<Rightarrow> asm2
                  | Some label \<Rightarrow>
                      if is_anon_fwd label then
                        asm2\<lparr>anon_labels := anon_define_forward (anon_labels asm2) (pc asm2)
                                               (current_file asm2) (stmt_line stmt)\<rparr>
                      else if is_anon_back label then
                        asm2\<lparr>anon_labels := anon_define_backward (anon_labels asm2) (pc asm2)
                                               (current_file asm2) (stmt_line stmt)\<rparr>
                      else asm2)
      in case assembler_assemble_statement asm3 stmt of
           None \<Rightarrow> None
         | Some (rc, asm4, stmt') \<Rightarrow>
             (let end_pc = output_addr asm4;
                  byte_count = uint end_pc - uint start_pc;
                  l1 = l\<lparr>line_stmt := stmt'\<rparr>;
                  l2 = (if byte_count > 0 \<and> byte_count \<le> 8 then
                          l1\<lparr>line_byte_count := byte_count,
                             line_bytes := map (\<lambda>j. memory asm4 (unat start_pc + j))
                                             [0..<nat byte_count]\<rparr>
                        else if byte_count > 8 then
                          l1\<lparr>line_byte_count := 8,
                             line_bytes := map (\<lambda>j. memory asm4 (unat start_pc + j)) [0..<8]\<rparr>
                        else l1);
                  l3 = (case stmt_data stmt' of
                          STMT_INSTRUCTION info \<Rightarrow>
                            l2\<lparr>line_cycles := ins_cycles info,
                               line_page_penalty := ins_page_penalty info\<rparr>
                        | _ \<Rightarrow> l2)
              in Some (asm4, l3)))"

fun pass2_lines ::
  "Assembler \<Rightarrow> AssembledLine list \<Rightarrow> (Assembler \<times> AssembledLine list) option" where
  "pass2_lines asm [] = Some (asm, [])"
| "pass2_lines asm (l # ls) =
     (case pass2_line asm l of
        None \<Rightarrow> None
      | Some (asm1, l') \<Rightarrow>
          if errors asm1 \<ge> max_errors asm1 then Some (asm1, l' # ls)
          else (case pass2_lines asm1 ls of
                  None \<Rightarrow> None
                | Some (asm2, ls') \<Rightarrow> Some (asm2, l' # ls')))"

definition assembler_pass2 :: "Assembler \<Rightarrow> (int \<times> Assembler) option" where
  "assembler_pass2 asm0 =
     (let asm = asm0\<lparr>pass := 2, pc := org asm0, real_pc := org asm0, in_pseudopc := False,
                    current_zone := None, anon_labels := anon_reset_pass (anon_labels asm0)\<rparr>
      in case pass2_lines asm (lines asm) of
           None \<Rightarrow> None
         | Some (asm1, ls) \<Rightarrow>
             (let asm2 = asm1\<lparr>lines := ls\<rparr>
              in Some (if errors asm2 > 0 then -1 else 0, asm2)))"

definition assembler_assemble_string ::
  "Assembler \<Rightarrow> SourceLine list \<Rightarrow> string \<Rightarrow> (int \<times> Assembler) option" where
  "assembler_assemble_string asm src filename =
     (case assembler_pass1 (assembler_reset asm) src filename of
        None \<Rightarrow> None
      | Some (rc1, asm1) \<Rightarrow>
          if errors asm1 > 0 then Some (errors asm1, asm1)
          else (case assembler_pass2 asm1 of
                  None \<Rightarrow> None
                | Some (rc2, asm2) \<Rightarrow> Some (errors asm2, asm2)))"

section \<open>lexer.c: the tokeniser\<close>

datatype TokenType =
    TOK_EOF | TOK_EOL | TOK_NUMBER | TOK_STRING | TOK_CHAR
  | TOK_IDENTIFIER | TOK_LOCAL_LABEL | TOK_ANON_BACK | TOK_ANON_FWD
  | TOK_DIRECTIVE | TOK_MACRO_CALL
  | TOK_PLUS | TOK_MINUS | TOK_STAR | TOK_SLASH | TOK_PERCENT | TOK_AMP | TOK_PIPE
  | TOK_CARET | TOK_TILDE | TOK_BANG | TOK_LT | TOK_GT | TOK_EQ | TOK_NE | TOK_LE | TOK_GE
  | TOK_LSHIFT | TOK_RSHIFT
  | TOK_LPAREN | TOK_RPAREN | TOK_LBRACE | TOK_RBRACE | TOK_LBRACKET | TOK_RBRACKET
  | TOK_COMMA | TOK_COLON | TOK_HASH
  | TOK_ERROR

text \<open>
  A token's text is the \<open>length\<close> characters at \<open>start\<close>: a piece of the source, or the
  message of an error token. Positions in the source are indices into the string; reading at
  the end of it gives the terminating NUL.
\<close>

record Token =
  tok_type :: TokenType
  tok_text :: string
  tok_line :: int
  tok_column :: int
  tok_number :: int32
  tok_string :: string

record Lexer =
  lex_source :: string
  lex_current :: nat
  lex_line_start :: nat
  lex_line :: int

definition is_alpha :: "char \<Rightarrow> bool" where
  "is_alpha c = (((97::nat) \<le> of_char c \<and> of_char c \<le> (122::nat))
               \<or> ((65::nat) \<le> of_char c \<and> of_char c \<le> (90::nat)) \<or> c = CHR ''_'')"

definition is_digit :: "char \<Rightarrow> bool" where
  "is_digit c = ((48::nat) \<le> of_char c \<and> of_char c \<le> (57::nat))"

definition is_hex_digit :: "char \<Rightarrow> bool" where
  "is_hex_digit c = (is_digit c \<or> ((97::nat) \<le> of_char c \<and> of_char c \<le> (102::nat))
                   \<or> ((65::nat) \<le> of_char c \<and> of_char c \<le> (70::nat)))"

definition is_binary_digit :: "char \<Rightarrow> bool" where
  "is_binary_digit c = (c = CHR ''0'' \<or> c = CHR ''1'')"

definition is_alnum :: "char \<Rightarrow> bool" where
  "is_alnum c = (is_alpha c \<or> is_digit c)"

definition peek :: "Lexer \<Rightarrow> char" where
  "peek lx = (if lex_current lx < length (lex_source lx)
               then lex_source lx ! lex_current lx else CHR 0x00)"

definition is_at_end :: "Lexer \<Rightarrow> bool" where
  "is_at_end lx = (peek lx = CHR 0x00)"

definition advance :: "Lexer \<Rightarrow> Lexer" where
  "advance lx = lx\<lparr>lex_current := lex_current lx + 1\<rparr>"

definition remaining :: "Lexer \<Rightarrow> string" where
  "remaining lx = drop (lex_current lx) (lex_source lx)"

text \<open>The loop \<open>while (p(peek(lx))) advance(lx)\<close>, for a test \<open>p\<close> that fails on NUL.\<close>

definition advance_while :: "(char \<Rightarrow> bool) \<Rightarrow> Lexer \<Rightarrow> Lexer" where
  "advance_while p lx = lx\<lparr>lex_current := lex_current lx + length (takeWhile p (remaining lx))\<rparr>"

definition make_token :: "Lexer \<Rightarrow> TokenType \<Rightarrow> nat \<Rightarrow> Token" where
  "make_token lx ty start =
     \<lparr>tok_type = ty,
      tok_text = take (lex_current lx - start) (drop start (lex_source lx)),
      tok_line = lex_line lx,
      tok_column = int start - int (lex_line_start lx) + 1,
      tok_number = 0, tok_string = []\<rparr>"

definition error_token :: "Lexer \<Rightarrow> string \<Rightarrow> Token" where
  "error_token lx message =
     \<lparr>tok_type = TOK_ERROR, tok_text = message, tok_line = lex_line lx,
      tok_column = int (lex_current lx) - int (lex_line_start lx) + 1,
      tok_number = 0, tok_string = []\<rparr>"

text \<open>\<open>skip_whitespace\<close>: the number of characters it passes over.\<close>

fun skip_whitespace_len :: "string \<Rightarrow> nat" where
  "skip_whitespace_len [] = 0"
| "skip_whitespace_len (c # cs) =
     (if c = CHR '' '' \<or> c = CHR 0x09 \<or> c = CHR 0x0D then 1 + skip_whitespace_len cs
      else if c = CHR '';''
      then length (takeWhile (\<lambda>d. d \<noteq> CHR 0x00 \<and> d \<noteq> CHR 0x0A) (c # cs))
      else 0)"

definition skip_whitespace :: "Lexer \<Rightarrow> Lexer" where
  "skip_whitespace lx = lx\<lparr>lex_current := lex_current lx + skip_whitespace_len (remaining lx)\<rparr>"

definition hex_digit_value :: "char \<Rightarrow> int32" where
  "hex_digit_value c =
     (if (48::nat) \<le> of_char c \<and> of_char c \<le> (57::nat) then of_nat (of_char c) - 48
      else if (97::nat) \<le> of_char c \<and> of_char c \<le> (102::nat) then of_nat (of_char c) - 97 + 10
      else of_nat (of_char c) - 65 + 10)"

text \<open>
  The digit loops return the value read, or \<open>None\<close> where the loop returns an error token,
  and the number of characters consumed.
\<close>

fun parse_hex_loop :: "string \<Rightarrow> int32 \<Rightarrow> int \<Rightarrow> nat \<Rightarrow> (int32 \<times> int) option \<times> nat" where
  "parse_hex_loop [] val digits n = (Some (val, digits), n)"
| "parse_hex_loop (c # cs) val digits n =
     (if is_hex_digit c then
        (let val' = push_bit 4 val OR hex_digit_value c
         in if digits + 1 > 8 then (None, n + 1)
            else parse_hex_loop cs val' (digits + 1) (n + 1))
      else (Some (val, digits), n))"

definition parse_hex :: "Lexer \<Rightarrow> nat \<Rightarrow> Token \<times> Lexer" where
  "parse_hex lx start =
     (case parse_hex_loop (remaining lx) 0 0 0 of
        (r, n) \<Rightarrow>
          (let lx1 = lx\<lparr>lex_current := lex_current lx + n\<rparr>
           in case r of
                None \<Rightarrow> (error_token lx1 ''hex number too large'', lx1)
              | Some (val, digits) \<Rightarrow>
                  if digits = 0 then (error_token lx1 ''expected hex digits after $'', lx1)
                  else ((make_token lx1 TOK_NUMBER start)\<lparr>tok_number := val\<rparr>, lx1)))"

fun parse_binary_loop :: "string \<Rightarrow> int32 \<Rightarrow> int \<Rightarrow> nat \<Rightarrow> (int32 \<times> int) option \<times> nat" where
  "parse_binary_loop [] val digits n = (Some (val, digits), n)"
| "parse_binary_loop (c # cs) val digits n =
     (if is_binary_digit c then
        (let val' = push_bit 1 val OR (of_nat (of_char c) - 48)
         in if digits + 1 > 32 then (None, n + 1)
            else parse_binary_loop cs val' (digits + 1) (n + 1))
      else (Some (val, digits), n))"

definition parse_binary :: "Lexer \<Rightarrow> nat \<Rightarrow> Token \<times> Lexer" where
  "parse_binary lx start =
     (case parse_binary_loop (remaining lx) 0 0 0 of
        (r, n) \<Rightarrow>
          (let lx1 = lx\<lparr>lex_current := lex_current lx + n\<rparr>
           in case r of
                None \<Rightarrow> (error_token lx1 ''binary number too large'', lx1)
              | Some (val, digits) \<Rightarrow>
                  if digits = 0 then (error_token lx1 ''expected binary digits after %'', lx1)
                  else ((make_token lx1 TOK_NUMBER start)\<lparr>tok_number := val\<rparr>, lx1)))"

text \<open>
  \<open>parse_decimal\<close>: \<open>new_value = value * 10 + (c - '0')\<close> in \<open>int32_t\<close>, with the test
  \<open>new_value < value\<close> for overflow. The arithmetic wraps around modulo \<open>2^32\<close>, as it
  does on the two's complement machines the assembler is built for.
\<close>

fun parse_decimal_loop :: "string \<Rightarrow> int32 \<Rightarrow> nat \<Rightarrow> int32 option \<times> nat" where
  "parse_decimal_loop [] val n = (Some val, n)"
| "parse_decimal_loop (c # cs) val n =
     (if is_digit c then
        (let new_value = val * 10 + (of_nat (of_char c) - 48)
         in if sint new_value < sint val then (None, n + 1)
            else parse_decimal_loop cs new_value (n + 1))
      else (Some val, n))"

definition parse_decimal :: "Lexer \<Rightarrow> nat \<Rightarrow> Token \<times> Lexer" where
  "parse_decimal lx start =
     (case parse_decimal_loop (drop start (lex_source lx)) 0 0 of
        (r, n) \<Rightarrow>
          (let lx1 = lx\<lparr>lex_current := start + n\<rparr>
           in case r of
                None \<Rightarrow> (error_token lx1 ''decimal number too large'', lx1)
              | Some val \<Rightarrow> ((make_token lx1 TOK_NUMBER start)\<lparr>tok_number := val\<rparr>, lx1)))"

definition escape_value :: "char \<Rightarrow> nat option" where
  "escape_value esc =
     (if esc = CHR ''n'' then Some 0x0d
      else if esc = CHR ''r'' then Some 0x0d
      else if esc = CHR ''t'' then Some 0x09
      else if esc = CHR 0x5C then Some 0x5C
      else if esc = CHR 0x27 then Some 0x27
      else if esc = CHR 0x22 then Some 0x22
      else if esc = CHR ''0'' then Some 0
      else None)"

definition match :: "Lexer \<Rightarrow> char \<Rightarrow> bool \<times> Lexer" where
  "match lx expected =
     (if is_at_end lx then (False, lx)
      else if peek lx \<noteq> expected then (False, lx)
      else (True, advance lx))"

definition finish_char :: "Lexer \<Rightarrow> nat \<Rightarrow> int32 \<Rightarrow> Token \<times> Lexer" where
  "finish_char lx start val =
     (case match lx (CHR 0x27) of
        (ok, lx1) \<Rightarrow>
          if \<not> ok then (error_token lx1 ''unterminated character literal'', lx1)
          else ((make_token lx1 TOK_CHAR start)\<lparr>tok_number := val\<rparr>, lx1))"

definition parse_char :: "Lexer \<Rightarrow> nat \<Rightarrow> Token \<times> Lexer" where
  "parse_char lx start =
     (if is_at_end lx then (error_token lx ''unterminated character literal'', lx)
      else
        (let c = peek lx; lx1 = advance lx
         in if c = CHR 0x5C then
              (if is_at_end lx1 then (error_token lx1 ''unterminated escape sequence'', lx1)
               else
                 (let esc = peek lx1; lx2 = advance lx1
                  in case escape_value esc of
                       None \<Rightarrow> (error_token lx2 ''unknown escape sequence'', lx2)
                     | Some v \<Rightarrow> finish_char lx2 start (of_nat v)))
            else finish_char lx1 start (of_nat (of_char c))))"

text \<open>
  The loop of \<open>parse_string\<close>: the buffer, or \<open>None\<close> on an unknown escape, and the number of
  characters consumed.
\<close>

fun parse_string_loop :: "string \<Rightarrow> string \<Rightarrow> nat \<Rightarrow> string option \<times> nat" where
  "parse_string_loop [] buf n = (Some buf, n)"
| "parse_string_loop [c] buf n =
     (if c = CHR 0x00 \<or> c = CHR 0x22 \<or> c = CHR 0x0A then (Some buf, n)
      else (Some (buf @ [c]), n + 1))"
| "parse_string_loop (c # d # cs) buf n =
     (if c = CHR 0x00 \<or> c = CHR 0x22 \<or> c = CHR 0x0A then (Some buf, n)
      else if c = CHR 0x5C \<and> d \<noteq> CHR 0x00 then
        (case escape_value d of
           None \<Rightarrow> (None, n + 2)
         | Some v \<Rightarrow> parse_string_loop cs (buf @ [char_of v]) (n + 2))
      else parse_string_loop (d # cs) (buf @ [c]) (n + 1))"

definition parse_string :: "Lexer \<Rightarrow> nat \<Rightarrow> Token \<times> Lexer" where
  "parse_string lx start =
     (case parse_string_loop (remaining lx) [] 0 of
        (r, n) \<Rightarrow>
          (let lx1 = lx\<lparr>lex_current := lex_current lx + n\<rparr>
           in case r of
                None \<Rightarrow> (error_token lx1 ''unknown escape sequence'', lx1)
              | Some buf \<Rightarrow>
                  if is_at_end lx1 \<or> peek lx1 = CHR 0x0A
                  then (error_token lx1 ''unterminated string'', lx1)
                  else (let lx2 = advance lx1
                        in ((make_token lx2 TOK_STRING start)\<lparr>tok_string := buf\<rparr>, lx2))))"

definition parse_identifier :: "Lexer \<Rightarrow> nat \<Rightarrow> Token \<times> Lexer" where
  "parse_identifier lx start =
     (let lx1 = advance_while is_alnum lx in (make_token lx1 TOK_IDENTIFIER start, lx1))"

definition parse_local_label :: "Lexer \<Rightarrow> nat \<Rightarrow> Token \<times> Lexer" where
  "parse_local_label lx start =
     (let lx1 = advance_while is_alnum lx in (make_token lx1 TOK_LOCAL_LABEL start, lx1))"

definition parse_directive :: "Lexer \<Rightarrow> nat \<Rightarrow> Token \<times> Lexer" where
  "parse_directive lx start =
     (let first = peek lx
      in if is_alpha first then
           (let lx1 = advance_while is_alnum (advance lx)
            in (make_token lx1 TOK_DIRECTIVE start, lx1))
         else if is_digit first then
           (let peek_pos = lex_current lx;
                lx1 = advance_while is_digit (advance lx);
                len = lex_current lx1 - peek_pos;
                digits = take len (drop peek_pos (lex_source lx))
            in if len = 2 \<and> digits \<in> set [''08'', ''16'', ''24'', ''32'']
               then (make_token lx1 TOK_DIRECTIVE start, lx1)
               else (make_token lx TOK_BANG start, lx))
         else (make_token lx TOK_BANG start, lx))"

text \<open>
  The look-behind of \<open>parse_macro_or_anon\<close>, on the characters between the start of the
  line and the \<open>+\<close>, nearest first.
\<close>

fun only_whitespace_before :: "string \<Rightarrow> bool" where
  "only_whitespace_before [] = True"
| "only_whitespace_before (c # cs) =
     (if c = CHR '':'' then True
      else if \<not> (c = CHR '' '' \<or> c = CHR 0x09) then False
      else only_whitespace_before cs)"

definition chars_before :: "Lexer \<Rightarrow> nat \<Rightarrow> string" where
  "chars_before lx start =
     rev (take (start - lex_line_start lx) (drop (lex_line_start lx) (lex_source lx)))"

definition plus_starts_operand :: "char \<Rightarrow> bool" where
  "plus_starts_operand c =
     (is_digit c \<or> c = CHR ''$'' \<or> c = CHR ''%'' \<or> c = CHR ''('' \<or> c = CHR 0x27
      \<or> c = CHR ''*'' \<or> c = CHR ''<'' \<or> c = CHR ''>'' \<or> c = CHR ''-'' \<or> c = CHR ''~''
      \<or> c = CHR ''!'')"

definition parse_macro_or_anon :: "Lexer \<Rightarrow> nat \<Rightarrow> Token \<times> Lexer" where
  "parse_macro_or_anon lx start =
     (let lx1 = advance_while (\<lambda>c. c = CHR ''+'') lx;
          plus_count = 1 + (int (lex_current lx1) - int (lex_current lx))
      in if plus_count = 1 \<and> is_alpha (peek lx1) then
           (if only_whitespace_before (chars_before lx1 start) then
              (let lx2 = advance_while is_alnum lx1
               in (make_token lx2 TOK_MACRO_CALL start, lx2))
            else (make_token lx1 TOK_PLUS start, lx1))
         else if plus_count = 1 \<and> plus_starts_operand (peek lx1) then
           (make_token lx1 TOK_PLUS start, lx1)
         else ((make_token lx1 TOK_ANON_FWD start)\<lparr>tok_number := word_of_int plus_count\<rparr>, lx1))"

definition parse_anon_back :: "Lexer \<Rightarrow> nat \<Rightarrow> Token \<times> Lexer" where
  "parse_anon_back lx start =
     (let lx1 = advance_while (\<lambda>c. c = CHR ''-'') lx;
          minus_count = 1 + (int (lex_current lx1) - int (lex_current lx))
      in if minus_count = 1 \<and> (is_digit (peek lx1) \<or> peek lx1 = CHR ''$''
              \<or> peek lx1 = CHR ''%'' \<or> peek lx1 = CHR ''('' \<or> is_alpha (peek lx1))
         then (make_token lx1 TOK_MINUS start, lx1)
         else ((make_token lx1 TOK_ANON_BACK start)\<lparr>tok_number := word_of_int minus_count\<rparr>,
               lx1))"

definition lexer_init :: "string \<Rightarrow> Lexer" where
  "lexer_init src = \<lparr>lex_source = src, lex_current = 0, lex_line_start = 0, lex_line = 1\<rparr>"

definition single_char_token :: "char \<Rightarrow> TokenType option" where
  "single_char_token c =
     (if c = CHR ''*'' then Some TOK_STAR
      else if c = CHR ''/'' then Some TOK_SLASH
      else if c = CHR ''%'' then Some TOK_PERCENT
      else if c = CHR ''&'' then Some TOK_AMP
      else if c = CHR ''|'' then Some TOK_PIPE
      else if c = CHR ''^'' then Some TOK_CARET
      else if c = CHR ''~'' then Some TOK_TILDE
      else if c = CHR ''!'' then Some TOK_BANG
      else if c = CHR ''='' then Some TOK_EQ
      else if c = CHR ''('' then Some TOK_LPAREN
      else if c = CHR '')'' then Some TOK_RPAREN
      else if c = CHR ''{'' then Some TOK_LBRACE
      else if c = CHR ''}'' then Some TOK_RBRACE
      else if c = CHR ''['' then Some TOK_LBRACKET
      else if c = CHR '']'' then Some TOK_RBRACKET
      else if c = CHR '','' then Some TOK_COMMA
      else if c = CHR '':'' then Some TOK_COLON
      else if c = CHR ''#'' then Some TOK_HASH
      else if c = CHR ''.'' then Some TOK_ERROR
      else None)"

definition lexer_next :: "Lexer \<Rightarrow> Token \<times> Lexer" where
  "lexer_next lx0 =
     (let lx = skip_whitespace lx0
      in if is_at_end lx then (make_token lx TOK_EOF (lex_current lx), lx)
         else
           (let start = lex_current lx; c = peek lx; lx1 = advance lx
            in if c = CHR 0x0A then
                 (make_token lx1 TOK_EOL start,
                  lx1\<lparr>lex_line := lex_line lx1 + 1, lex_line_start := lex_current lx1\<rparr>)
               else if c = CHR ''$'' then parse_hex lx1 start
               else if c = CHR ''%'' \<and> is_binary_digit (peek lx1) then parse_binary lx1 start
               else if is_digit c then parse_decimal lx1 start
               else if c = CHR 0x27 then parse_char lx1 start
               else if c = CHR 0x22 then parse_string lx1 start
               else if is_alpha c then parse_identifier lx1 start
               else if c = CHR ''.'' \<and> is_alpha (peek lx1) then parse_local_label lx1 start
               else if c = CHR ''!'' \<and> is_alnum (peek lx1) then parse_directive lx1 start
               else if c = CHR ''+'' then parse_macro_or_anon lx1 start
               else if c = CHR ''-'' then parse_anon_back lx1 start
               else if c = CHR ''<'' then
                 (if peek lx1 = CHR ''<'' then
                    (make_token (advance lx1) TOK_LSHIFT start, advance lx1)
                  else if peek lx1 = CHR ''='' then
                    (make_token (advance lx1) TOK_LE start, advance lx1)
                  else if peek lx1 = CHR ''>'' then
                    (make_token (advance lx1) TOK_NE start, advance lx1)
                  else (make_token lx1 TOK_LT start, lx1))
               else if c = CHR ''>'' then
                 (if peek lx1 = CHR ''>'' then
                    (make_token (advance lx1) TOK_RSHIFT start, advance lx1)
                  else if peek lx1 = CHR ''='' then
                    (make_token (advance lx1) TOK_GE start, advance lx1)
                  else (make_token lx1 TOK_GT start, lx1))
               else
                 (case single_char_token c of
                    Some ty \<Rightarrow> (make_token lx1 ty start, lx1)
                  | None \<Rightarrow> (error_token lx1 ''unexpected character'', lx1))))"

section \<open>Concrete programs and states\<close>

text \<open>Inputs on which the properties below are evaluated.\<close>

definition basic_state :: "int \<Rightarrow> Assembler" where
  "basic_state p = (assembler_create 100 100 0x0801)\<lparr>pc := 0x0100, real_pc := 0x0100, pass := p\<rparr>"

definition basic_noargs :: DirectiveInfo where
  "basic_noargs = \<lparr>dir_name = ''basic'', dir_args = [], dir_string_arg = None\<rparr>"

definition one_symbol_table :: SymbolTable where
  "one_symbol_table = snd (symbol_define (symbol_table_create 1024) ''count'' 1 SYM_DEFINED ''t'' 1)"

definition one_constant_table :: SymbolTable where
  "one_constant_table = snd (symbol_define (symbol_table_create 1024) ''limit'' 7 SYM_CONSTANT ''t'' 1)"


definition plain_operand :: "Expr \<Rightarrow> OperandInfo" where
  "plain_operand e = \<lparr>op_expr = Some e, has_hash = False, has_x_index = False,
     has_y_index = False, is_indirect = False, op_forced_zp = False, op_forced_abs = False\<rparr>"

definition no_operand :: OperandInfo where
  "no_operand = \<lparr>op_expr = None, has_hash = False, has_x_index = False,
     has_y_index = False, is_indirect = False, op_forced_zp = False, op_forced_abs = False\<rparr>"




text \<open>
  The lines \<open>*=$1000\<close>, \<open>+ nop\<close>, \<open>bne +\<close>, \<open>+ rts\<close> as the parser recognises them: the
  origin assignment is the directive \<open>org\<close>, a leading \<open>+\<close> is an anonymous forward label,
  and the operand \<open>+\<close> is the symbol \<open>__anon_fwd_1\<close>.
\<close>

definition org_directive :: "int32 \<Rightarrow> LineBody" where
  "org_directive a =
     L_DIRECTIVE \<lparr>dir_name = ''org'', dir_args = [EXPR_NUMBER a], dir_string_arg = None\<rparr>"

definition anon_fwd_label :: LabelInfo where
  "anon_fwd_label =
     \<lparr>label_name = ''+'', is_local = False, is_anon_fwd = True, is_anon_back = False\<rparr>"

definition forward_branch_source :: "SourceLine list" where
  "forward_branch_source =
     [\<lparr>src_label = None, src_body = org_directive 0x1000, src_line = 1\<rparr>,
      \<lparr>src_label = Some anon_fwd_label, src_body = L_INSTRUCTION ''nop'' no_operand,
       src_line = 2\<rparr>,
      \<lparr>src_label = None,
       src_body = L_INSTRUCTION ''bne'' (plain_operand (EXPR_SYMBOL ''__anon_fwd_1'')),
       src_line = 3\<rparr>,
      \<lparr>src_label = Some anon_fwd_label, src_body = L_INSTRUCTION ''rts'' no_operand,
       src_line = 4\<rparr>]"

text \<open>The status of a run and the bytes it left in \<open>n\<close> cells of the image from address \<open>a\<close>.\<close>

definition output_bytes ::
  "(int \<times> Assembler) option \<Rightarrow> nat \<Rightarrow> nat \<Rightarrow> (int \<times> uint8 list) option" where
  "output_bytes r a n =
     (case r of None \<Rightarrow> None | Some (rc, asm) \<Rightarrow> Some (rc, map (memory asm) [a..<a + n]))"

text \<open>The addresses of the forward labels a run has recorded.\<close>

definition forward_addresses :: "(int \<times> Assembler) option \<Rightarrow> uint16 list" where
  "forward_addresses r =
     (case r of None \<Rightarrow> [] | Some (rc, asm) \<Rightarrow> map anon_address (forward (anon_labels asm)))"


subsection \<open>Token streams\<close>

text \<open>The token stream of a source text, read with repeated calls of \<open>lexer_next\<close> up to
  the end-of-file token, and a lexer placed at a given offset of a one-line source.\<close>

fun lexer_tokens :: "nat \<Rightarrow> Lexer \<Rightarrow> Token list" where
  "lexer_tokens 0 lx = []"
| "lexer_tokens (Suc k) lx =
     (case lexer_next lx of
        (t, lx') \<Rightarrow> if tok_type t = TOK_EOF then [t] else t # lexer_tokens k lx')"

definition token_kinds :: "string \<Rightarrow> (TokenType \<times> string) list" where
  "token_kinds src = map (\<lambda>t. (tok_type t, tok_text t)) (lexer_tokens 8 (lexer_init src))"

definition lexer_at :: "string \<Rightarrow> nat \<Rightarrow> Lexer" where
  "lexer_at src i = \<lparr>lex_source = src, lex_current = i, lex_line_start = 0, lex_line = 1\<rparr>"

section \<open>Verified properties\<close>

subsection \<open>Decimal literals\<close>

text \<open>
  Claim C7 says that every decimal literal above 2147483647 lexes to the error token
  ``decimal number too large''. The test \<open>new_value < value\<close> of \<open>parse_decimal\<close> misses
  the wrap-arounds that land above the old value: on the ten digits of \<open>5000000000\<close> the
  step from 500000000 gives \<open>5000000000 mod 2^32 = 705032704\<close>, which is not smaller, and
  the lexer returns a number token of that value.
\<close>

theorem parse_decimal_misses_overflow:
  "tok_type (fst (lexer_next (lexer_init ''5000000000''))) = TOK_NUMBER
   \<and> tok_number (fst (lexer_next (lexer_init ''5000000000''))) = 705032704"
  by code_simp

subsection \<open>The BASIC stub\<close>

text \<open>
  Claim C3 says that a line emits in pass 2 as many bytes as it advanced the program counter
  by in pass 1, also for \<open>!basic\<close> with a defaulted SYS address at any origin. At origin
  \<open>$0100\<close> the defaulted address is 268: pass 1 reserves 12 bytes (four digits assumed),
  pass 2 prints the three digits of 268 and emits 11 bytes.
\<close>

theorem basic_directive_pass_sizes_differ:
  "pc (snd (assemble_basic_directive (basic_state 1) basic_noargs)) = 0x0100 + 12
   \<and> pc (snd (assemble_basic_directive (basic_state 2) basic_noargs)) = 0x0100 + 11"
  by code_simp

subsection \<open>Byte emission\<close>

text \<open>
  Claim C9: every emission stays inside the 64 KiB image. The output address of
  \<open>assembler_emit_byte\<close> is a 16-bit value, so its index is below \<open>ASM_MEMORY_SIZE\<close>; the
  emission writes that one cell of \<open>memory\<close> and of \<open>written\<close> and no other; afterwards
  \<open>lowest_addr \<le> output address \<le> highest_addr\<close>; both program counters advance by one
  modulo 65536. This holds in every state, so for every sequence of statements, whose
  emissions all go through \<open>assembler_emit_byte\<close>.
\<close>

theorem emit_byte_in_bounds:
  "unat (output_addr asm) < ASM_MEMORY_SIZE
   \<and> memory (assembler_emit_byte asm b) = (memory asm)(unat (output_addr asm) := b)
   \<and> written (assembler_emit_byte asm b) = (written asm)(unat (output_addr asm) := True)
   \<and> lowest_addr (assembler_emit_byte asm b) \<le> output_addr asm
   \<and> output_addr asm \<le> highest_addr (assembler_emit_byte asm b)
   \<and> pc (assembler_emit_byte asm b) = pc asm + 1
   \<and> real_pc (assembler_emit_byte asm b) = real_pc asm + 1"
proof -
  have "unat (output_addr asm) < 2 ^ 16"
    using unsigned_less [of "output_addr asm", where 'a = nat] by simp
  then show ?thesis
    by (auto simp: assembler_emit_byte_def Let_def ASM_MEMORY_SIZE_def output_addr_def)
qed

subsection \<open>The symbol table\<close>

lemmas sym_flag_defs =
  SYM_NONE_def SYM_DEFINED_def SYM_ZEROPAGE_def SYM_CONSTANT_def SYM_REFERENCED_def
  SYM_LOCAL_def SYM_EXPORTED_def SYM_FORCE_UPDATE_def

lemma define_chain_None:
  "(symbol_define_chain ch n v fl = None) = (find (\<lambda>sy. str_equal_nocase (sym_name sy) n) ch = None)"
  by (induction ch) (auto simp: Let_def split: option.splits)

lemma define_chain_found_plain:
  "find (\<lambda>sy. str_equal_nocase (sym_name sy) n) ch = Some s \<Longrightarrow> sym_flags s AND SYM_CONSTANT = 0 \<Longrightarrow>
   \<exists>ch'. symbol_define_chain ch n v fl =
      Some (Some (s\<lparr>sym_value := v, sym_flags := sym_flags s OR ((fl AND NOT SYM_FORCE_UPDATE) OR SYM_DEFINED)\<rparr>), ch')
    \<and> length ch' = length ch
    \<and> find (\<lambda>sy. str_equal_nocase (sym_name sy) n) ch' =
        Some (s\<lparr>sym_value := v, sym_flags := sym_flags s OR ((fl AND NOT SYM_FORCE_UPDATE) OR SYM_DEFINED)\<rparr>)"
proof (induction ch)
  case Nil
  then show ?case by simp
next
  case (Cons a ch)
  show ?case
  proof (cases "str_equal_nocase (sym_name a) n")
    case True
    with Cons.prems show ?thesis by (simp add: Let_def)
  next
    case False
    with Cons.prems have "find (\<lambda>sy. str_equal_nocase (sym_name sy) n) ch = Some s" by simp
    from Cons.IH [OF this Cons.prems(2)] False show ?thesis by auto
  qed
qed

lemma define_chain_found_force:
  "find (\<lambda>sy. str_equal_nocase (sym_name sy) n) ch = Some s \<Longrightarrow> sym_flags s AND SYM_CONSTANT \<noteq> 0 \<Longrightarrow>
   fl AND SYM_FORCE_UPDATE \<noteq> 0 \<Longrightarrow>
   \<exists>ch'. symbol_define_chain ch n v fl =
      Some (Some (s\<lparr>sym_value := v, sym_flags := (sym_flags s AND NOT SYM_CONSTANT) OR ((fl AND NOT SYM_FORCE_UPDATE) OR SYM_DEFINED)\<rparr>), ch')
    \<and> length ch' = length ch
    \<and> find (\<lambda>sy. str_equal_nocase (sym_name sy) n) ch' =
        Some (s\<lparr>sym_value := v, sym_flags := (sym_flags s AND NOT SYM_CONSTANT) OR ((fl AND NOT SYM_FORCE_UPDATE) OR SYM_DEFINED)\<rparr>)"
proof (induction ch)
  case Nil
  then show ?case by simp
next
  case (Cons a ch)
  show ?case
  proof (cases "str_equal_nocase (sym_name a) n")
    case True
    with Cons.prems show ?thesis by (simp add: Let_def)
  next
    case False
    with Cons.prems have "find (\<lambda>sy. str_equal_nocase (sym_name sy) n) ch = Some s" by simp
    from Cons.IH [OF this Cons.prems(2,3)] False show ?thesis by auto
  qed
qed

lemma define_chain_found_refused:
  "find (\<lambda>sy. str_equal_nocase (sym_name sy) n) ch = Some s \<Longrightarrow> sym_flags s AND SYM_CONSTANT \<noteq> 0 \<Longrightarrow>
   fl AND SYM_FORCE_UPDATE = 0 \<Longrightarrow>
   symbol_define_chain ch n v fl = Some (None, ch)"
proof (induction ch)
  case Nil
  then show ?case by simp
next
  case (Cons a ch)
  show ?case
  proof (cases "str_equal_nocase (sym_name a) n")
    case True
    with Cons.prems show ?thesis by simp
  next
    case False
    with Cons.prems have "find (\<lambda>sy. str_equal_nocase (sym_name sy) n) ch = Some s" by simp
    from Cons.IH [OF this Cons.prems(2,3)] False show ?thesis by simp
  qed
qed

lemma bucket_index_less: "table_ok t \<Longrightarrow> bucket_index t n < length (buckets t)"
  by (simp add: table_ok_def bucket_index_def)

lemma bucket_index_upd [simp]:
  "bucket_index (t\<lparr>buckets := b\<rparr>) n = bucket_index t n"
  "bucket_index (t\<lparr>tab_count := c\<rparr>) n = bucket_index t n"
  by (simp_all add: bucket_index_def)

lemma symbol_define_new:
  assumes ok: "table_ok t" and none: "symbol_lookup t n = None"
  shows "\<exists>t'. symbol_define t n v fl f l =
           (Some \<lparr>sym_name = n, sym_display_name = n, sym_value = v,
                  sym_flags = fl OR SYM_DEFINED, sym_file = f, sym_line = l\<rparr>, t')
         \<and> tab_count t' = tab_count t + 1 \<and> table_ok t'
         \<and> buckets t' ! bucket_index t n =
              \<lparr>sym_name = n, sym_display_name = n, sym_value = v,
                  sym_flags = fl OR SYM_DEFINED, sym_file = f, sym_line = l\<rparr> # buckets t ! bucket_index t n"
proof -
  from none have "symbol_define_chain (buckets t ! bucket_index t n) n v fl = None"
    by (simp add: symbol_lookup_def define_chain_None)
  with bucket_index_less [OF ok, of n] ok show ?thesis
    by (simp add: symbol_define_def Let_def table_ok_def)
qed

lemma symbol_define_plain:
  assumes ok: "table_ok t" and found: "symbol_lookup t n = Some s"
    and nc: "sym_flags s AND SYM_CONSTANT = 0"
  shows "\<exists>t'. symbol_define t n v fl f l =
           (Some (s\<lparr>sym_value := v, sym_flags := sym_flags s OR ((fl AND NOT SYM_FORCE_UPDATE) OR SYM_DEFINED)\<rparr>), t')
         \<and> table_ok t' \<and> tab_count t' = tab_count t
         \<and> symbol_lookup t' n =
             Some (s\<lparr>sym_value := v, sym_flags := sym_flags s OR ((fl AND NOT SYM_FORCE_UPDATE) OR SYM_DEFINED)\<rparr>)"
proof -
  from found have "find (\<lambda>sy. str_equal_nocase (sym_name sy) n) (buckets t ! bucket_index t n) = Some s"
    by (simp add: symbol_lookup_def)
  from define_chain_found_plain [OF this nc, of v fl] obtain ch' where
    "symbol_define_chain (buckets t ! bucket_index t n) n v fl =
      Some (Some (s\<lparr>sym_value := v, sym_flags := sym_flags s OR ((fl AND NOT SYM_FORCE_UPDATE) OR SYM_DEFINED)\<rparr>), ch')"
    "find (\<lambda>sy. str_equal_nocase (sym_name sy) n) ch' =
        Some (s\<lparr>sym_value := v, sym_flags := sym_flags s OR ((fl AND NOT SYM_FORCE_UPDATE) OR SYM_DEFINED)\<rparr>)"
    by blast
  with bucket_index_less [OF ok, of n] ok show ?thesis
    by (simp add: symbol_define_def Let_def table_ok_def symbol_lookup_def)
qed

lemma symbol_define_force:
  assumes ok: "table_ok t" and found: "symbol_lookup t n = Some s"
    and c: "sym_flags s AND SYM_CONSTANT \<noteq> 0" and f: "fl AND SYM_FORCE_UPDATE \<noteq> 0"
  shows "\<exists>t'. symbol_define t n v fl f l =
           (Some (s\<lparr>sym_value := v, sym_flags := (sym_flags s AND NOT SYM_CONSTANT) OR ((fl AND NOT SYM_FORCE_UPDATE) OR SYM_DEFINED)\<rparr>), t')
         \<and> table_ok t' \<and> tab_count t' = tab_count t
         \<and> symbol_lookup t' n =
             Some (s\<lparr>sym_value := v, sym_flags := (sym_flags s AND NOT SYM_CONSTANT) OR ((fl AND NOT SYM_FORCE_UPDATE) OR SYM_DEFINED)\<rparr>)"
proof -
  from found have "find (\<lambda>sy. str_equal_nocase (sym_name sy) n) (buckets t ! bucket_index t n) = Some s"
    by (simp add: symbol_lookup_def)
  from define_chain_found_force [OF this c f, of v] obtain ch' where
    "symbol_define_chain (buckets t ! bucket_index t n) n v fl =
      Some (Some (s\<lparr>sym_value := v, sym_flags := (sym_flags s AND NOT SYM_CONSTANT) OR ((fl AND NOT SYM_FORCE_UPDATE) OR SYM_DEFINED)\<rparr>), ch')"
    "find (\<lambda>sy. str_equal_nocase (sym_name sy) n) ch' =
        Some (s\<lparr>sym_value := v, sym_flags := (sym_flags s AND NOT SYM_CONSTANT) OR ((fl AND NOT SYM_FORCE_UPDATE) OR SYM_DEFINED)\<rparr>)"
    by blast
  with bucket_index_less [OF ok, of n] ok show ?thesis
    by (simp add: symbol_define_def Let_def table_ok_def symbol_lookup_def)
qed

lemma symbol_define_refused:
  assumes ok: "table_ok t" and found: "symbol_lookup t n = Some s"
    and c: "sym_flags s AND SYM_CONSTANT \<noteq> 0" and f: "fl AND SYM_FORCE_UPDATE = 0"
  shows "symbol_define t n v fl f l = (None, t)"
proof -
  from found have "find (\<lambda>sy. str_equal_nocase (sym_name sy) n) (buckets t ! bucket_index t n) = Some s"
    by (simp add: symbol_lookup_def)
  from define_chain_found_refused [OF this c f, of v]
  show ?thesis
    by (simp add: symbol_define_def Let_def)
qed


lemma str_equal_nocase_eq: "str_equal_nocase a b = (map toupper a = map toupper b)"
  by (induction a b rule: str_equal_nocase.induct) auto

lemma hash_symbol_loop_nocase:
  "map toupper a = map toupper b \<Longrightarrow> hash_symbol_loop h a = hash_symbol_loop h b"
proof (induction a arbitrary: b h)
  case Nil
  then show ?case by simp
next
  case (Cons x xs)
  then obtain y ys where b: "b = y # ys" by (cases b) auto
  with Cons.prems have "toupper x = toupper y" "map toupper xs = map toupper ys" by auto
  with Cons.IH [of ys] b show ?case by simp
qed

lemma bucket_index_nocase:
  "str_equal_nocase m n \<Longrightarrow> bucket_index t m = bucket_index t n"
  unfolding bucket_index_def hash_symbol_def str_equal_nocase_eq
  by (drule hash_symbol_loop_nocase [where h = 5381]) simp

lemma symbol_lookup_nocase:
  assumes "str_equal_nocase m n"
  shows "symbol_lookup t m = symbol_lookup t n"
proof -
  from assms have "map toupper m = map toupper n" by (simp add: str_equal_nocase_eq)
  then have "(\<lambda>sy. str_equal_nocase (sym_name sy) m) = (\<lambda>sy. str_equal_nocase (sym_name sy) n)"
    by (simp add: str_equal_nocase_eq)
  then have "find (\<lambda>sy. str_equal_nocase (sym_name sy) m) (buckets t ! bucket_index t n)
           = find (\<lambda>sy. str_equal_nocase (sym_name sy) n) (buckets t ! bucket_index t n)"
    by (rule arg_cong [where f = "\<lambda>p. find p (buckets t ! bucket_index t n)"])
  with bucket_index_nocase [OF assms, of t] show ?thesis
    by (simp only: symbol_lookup_def)
qed

lemma table_ok_create: "0 < n \<Longrightarrow> table_ok (symbol_table_create n)"
  by (simp add: table_ok_def symbol_table_create_def)

lemma symbol_lookup_create: "0 < n \<Longrightarrow> symbol_lookup (symbol_table_create n) m = None"
  by (simp add: symbol_lookup_def symbol_table_create_def bucket_index_def)

lemma define_chain_length:
  "symbol_define_chain ch n v fl = Some (r, ch') \<Longrightarrow> length ch' = length ch"
proof (induction ch arbitrary: r ch')
  case Nil
  then show ?case by simp
next
  case (Cons a ch)
  show ?case
  proof (cases "str_equal_nocase (sym_name a) n")
    case True
    with Cons.prems show ?thesis by (auto simp: Let_def split: if_splits)
  next
    case False
    with Cons.prems obtain rest' where
      "symbol_define_chain ch n v fl = Some (r, rest')" "ch' = a # rest'"
      by (auto split: option.splits)
    with Cons.IH show ?thesis by simp
  qed
qed

lemma table_ok_define: "table_ok t \<Longrightarrow> table_ok (snd (symbol_define t n v fl f l))"
  by (simp add: symbol_define_def Let_def table_ok_def split: option.splits prod.splits)

lemma define_chain_other:
  "\<not> str_equal_nocase m n \<Longrightarrow> symbol_define_chain ch n v fl = Some (r, ch') \<Longrightarrow>
   find (\<lambda>sy. str_equal_nocase (sym_name sy) m) ch' = find (\<lambda>sy. str_equal_nocase (sym_name sy) m) ch"
proof (induction ch arbitrary: r ch')
  case Nil
  then show ?case by simp
next
  case (Cons a ch)
  show ?case
  proof (cases "str_equal_nocase (sym_name a) n")
    case True
    with Cons.prems(1) have "\<not> str_equal_nocase (sym_name a) m"
      by (auto simp: str_equal_nocase_eq)
    with True Cons.prems show ?thesis
      by (auto simp: Let_def split: if_splits)
  next
    case False
    with Cons.prems obtain rest' where
      "symbol_define_chain ch n v fl = Some (r, rest')" "ch' = a # rest'"
      by (auto split: option.splits)
    with Cons.IH [OF Cons.prems(1)] show ?thesis by simp
  qed
qed

lemma symbol_lookup_define_other:
  assumes ok: "table_ok t" and ne: "\<not> str_equal_nocase m n"
  shows "symbol_lookup (snd (symbol_define t n v fl f l)) m = symbol_lookup t m"
proof (cases "bucket_index t m = bucket_index t n")
  case False
  with bucket_index_less [OF ok, of n] bucket_index_less [OF ok, of m] show ?thesis
    by (auto simp: symbol_define_def symbol_lookup_def Let_def split: option.splits)
next
  case True
  from ne have ne': "\<not> str_equal_nocase n m" by (auto simp: str_equal_nocase_eq)
  show ?thesis
  proof (cases "symbol_define_chain (buckets t ! bucket_index t n) n v fl")
    case None
    with True bucket_index_less [OF ok, of n] ne' show ?thesis
      by (simp add: symbol_define_def symbol_lookup_def Let_def)
  next
    case (Some p)
    obtain r ch' where p: "p = (r, ch')" by (cases p)
    from define_chain_other [OF ne Some [unfolded p]] True bucket_index_less [OF ok, of n] Some p
    show ?thesis
      by (simp add: symbol_define_def symbol_lookup_def Let_def)
  qed
qed

lemma str_equal_nocase_refl [simp]: "str_equal_nocase n n"
  by (simp add: str_equal_nocase_eq)

lemma symbol_lookup_define_new:
  assumes ok: "table_ok t" and none: "symbol_lookup t n = None"
  shows "symbol_lookup (snd (symbol_define t n v fl f l)) n =
           Some \<lparr>sym_name = n, sym_display_name = n, sym_value = v,
                  sym_flags = fl OR SYM_DEFINED, sym_file = f, sym_line = l\<rparr>"
proof -
  from symbol_define_new [OF ok none, of v fl f l] obtain t' where
    "symbol_define t n v fl f l =
       (Some \<lparr>sym_name = n, sym_display_name = n, sym_value = v,
                  sym_flags = fl OR SYM_DEFINED, sym_file = f, sym_line = l\<rparr>, t')"
    "buckets t' ! bucket_index t n =
       \<lparr>sym_name = n, sym_display_name = n, sym_value = v,
         sym_flags = fl OR SYM_DEFINED, sym_file = f, sym_line = l\<rparr> # buckets t ! bucket_index t n"
    "table_ok t'"
    by blast
  moreover from this ok have "bucket_index t' n = bucket_index t n"
    by (auto simp: bucket_index_def symbol_define_def Let_def split: option.splits)
  ultimately show ?thesis by (simp add: symbol_lookup_def)
qed

lemma one_symbol_table_ok: "table_ok one_symbol_table"
  by (simp add: one_symbol_table_def table_ok_define table_ok_create)

lemma one_constant_table_ok: "table_ok one_constant_table"
  by (simp add: one_constant_table_def table_ok_define table_ok_create)

lemma one_symbol_table_lookup:
  "symbol_lookup one_symbol_table ''COUNT'' =
     Some \<lparr>sym_name = ''count'', sym_display_name = ''count'', sym_value = 1,
            sym_flags = SYM_DEFINED, sym_file = ''t'', sym_line = 1\<rparr>"
proof -
  have "str_equal_nocase ''COUNT'' ''count''" by code_simp
  then have "symbol_lookup one_symbol_table ''COUNT'' = symbol_lookup one_symbol_table ''count''"
    by (rule symbol_lookup_nocase)
  then show ?thesis
    by (simp add: one_symbol_table_def symbol_lookup_define_new table_ok_create
        symbol_lookup_create)
qed

lemma one_constant_table_lookup:
  "symbol_lookup one_constant_table ''LIMIT'' =
     Some \<lparr>sym_name = ''limit'', sym_display_name = ''limit'', sym_value = 7,
            sym_flags = SYM_CONSTANT OR SYM_DEFINED, sym_file = ''t'', sym_line = 1\<rparr>"
proof -
  have "str_equal_nocase ''LIMIT'' ''limit''" by code_simp
  then have "symbol_lookup one_constant_table ''LIMIT'' = symbol_lookup one_constant_table ''limit''"
    by (rule symbol_lookup_nocase)
  then show ?thesis
    by (simp add: one_constant_table_def symbol_lookup_define_new table_ok_create
        symbol_lookup_create)
qed

text \<open>
  Claim C5, as amended: for every call of \<open>symbol_define\<close> on a well-formed table,
  \<^item> if no entry of the case-insensitive name exists, a new symbol is inserted with the given
    value and the flags \<open>flags | DEFINED\<close>;
  \<^item> if an entry exists and lacks \<open>CONSTANT\<close>, its value is overwritten and its flags become
    \<open>old | (flags & ~FORCE_UPDATE) | DEFINED\<close>: the request's bits other than
    \<open>FORCE_UPDATE\<close> are unioned in;
  \<^item> if the entry has \<open>CONSTANT\<close> and the request carries \<open>FORCE_UPDATE\<close>, the value is
    updated and the flags become \<open>(old & ~CONSTANT) | (flags & ~FORCE_UPDATE) | DEFINED\<close>;
  \<^item> if the entry has \<open>CONSTANT\<close> and the request lacks \<open>FORCE_UPDATE\<close>, the call returns
    NULL and leaves the table unchanged.
  In the first three cases the entry returned is the one a lookup of the name finds
  afterwards.
\<close>

theorem symbol_define_cases:
  assumes ok: "table_ok t"
  shows
    "(symbol_lookup t n = None \<longrightarrow>
        fst (symbol_define t n v fl f l) =
          Some \<lparr>sym_name = n, sym_display_name = n, sym_value = v,
                 sym_flags = fl OR SYM_DEFINED, sym_file = f, sym_line = l\<rparr>
        \<and> symbol_lookup (snd (symbol_define t n v fl f l)) n =
            fst (symbol_define t n v fl f l)
        \<and> tab_count (snd (symbol_define t n v fl f l)) = tab_count t + 1)
   \<and> (\<forall>s. symbol_lookup t n = Some s \<and> sym_flags s AND SYM_CONSTANT = 0 \<longrightarrow>
        fst (symbol_define t n v fl f l) =
          Some (s\<lparr>sym_value := v,
                  sym_flags := sym_flags s OR ((fl AND NOT SYM_FORCE_UPDATE) OR SYM_DEFINED)\<rparr>)
        \<and> symbol_lookup (snd (symbol_define t n v fl f l)) n =
            fst (symbol_define t n v fl f l))
   \<and> (\<forall>s. symbol_lookup t n = Some s \<and> sym_flags s AND SYM_CONSTANT \<noteq> 0
            \<and> fl AND SYM_FORCE_UPDATE \<noteq> 0 \<longrightarrow>
        fst (symbol_define t n v fl f l) =
          Some (s\<lparr>sym_value := v,
                  sym_flags := (sym_flags s AND NOT SYM_CONSTANT)
                                 OR ((fl AND NOT SYM_FORCE_UPDATE) OR SYM_DEFINED)\<rparr>)
        \<and> symbol_lookup (snd (symbol_define t n v fl f l)) n =
            fst (symbol_define t n v fl f l))
   \<and> (\<forall>s. symbol_lookup t n = Some s \<and> sym_flags s AND SYM_CONSTANT \<noteq> 0
            \<and> fl AND SYM_FORCE_UPDATE = 0 \<longrightarrow>
        symbol_define t n v fl f l = (None, t))"
proof (intro conjI allI impI)
  assume none: "symbol_lookup t n = None"
  from symbol_define_new [OF ok none, of v fl f l]
  show "fst (symbol_define t n v fl f l) =
          Some \<lparr>sym_name = n, sym_display_name = n, sym_value = v,
                 sym_flags = fl OR SYM_DEFINED, sym_file = f, sym_line = l\<rparr>"
    and "tab_count (snd (symbol_define t n v fl f l)) = tab_count t + 1"
    by auto
  with symbol_lookup_define_new [OF ok none, of v fl f l]
  show "symbol_lookup (snd (symbol_define t n v fl f l)) n =
            fst (symbol_define t n v fl f l)"
    by simp
next
  fix s assume "symbol_lookup t n = Some s \<and> sym_flags s AND SYM_CONSTANT = 0"
  with symbol_define_plain [OF ok, of n s v fl f l]
  show "fst (symbol_define t n v fl f l) =
          Some (s\<lparr>sym_value := v,
                  sym_flags := sym_flags s OR ((fl AND NOT SYM_FORCE_UPDATE) OR SYM_DEFINED)\<rparr>)"
    and "symbol_lookup (snd (symbol_define t n v fl f l)) n =
            fst (symbol_define t n v fl f l)"
    by auto
next
  fix s assume "symbol_lookup t n = Some s \<and> sym_flags s AND SYM_CONSTANT \<noteq> 0
            \<and> fl AND SYM_FORCE_UPDATE \<noteq> 0"
  with symbol_define_force [OF ok, of n s fl v f l]
  show "fst (symbol_define t n v fl f l) =
          Some (s\<lparr>sym_value := v,
                  sym_flags := (sym_flags s AND NOT SYM_CONSTANT)
                                 OR ((fl AND NOT SYM_FORCE_UPDATE) OR SYM_DEFINED)\<rparr>)"
    and "symbol_lookup (snd (symbol_define t n v fl f l)) n =
            fst (symbol_define t n v fl f l)"
    by auto
next
  fix s assume "symbol_lookup t n = Some s \<and> sym_flags s AND SYM_CONSTANT \<noteq> 0
            \<and> fl AND SYM_FORCE_UPDATE = 0"
  with symbol_define_refused [OF ok, of n s fl v f l]
  show "symbol_define t n v fl f l = (None, t)" by simp
qed

theorem symbol_define_cases_witness:
  "table_ok (symbol_table_create 1024)
   \<and> symbol_lookup (symbol_table_create 1024) ''count'' = None
   \<and> fst (symbol_define (symbol_table_create 1024) ''count'' 1 SYM_DEFINED ''t'' 1) =
       Some \<lparr>sym_name = ''count'', sym_display_name = ''count'', sym_value = 1,
              sym_flags = SYM_DEFINED, sym_file = ''t'', sym_line = 1\<rparr>
   \<and> table_ok one_symbol_table
   \<and> fst (symbol_define one_symbol_table ''COUNT'' 5 (SYM_ZEROPAGE OR SYM_FORCE_UPDATE) ''t'' 2) =
       Some \<lparr>sym_name = ''count'', sym_display_name = ''count'', sym_value = 5,
              sym_flags = SYM_DEFINED OR SYM_ZEROPAGE, sym_file = ''t'', sym_line = 1\<rparr>
   \<and> table_ok one_constant_table
   \<and> fst (symbol_define one_constant_table ''LIMIT'' 9 (SYM_DEFINED OR SYM_FORCE_UPDATE) ''t'' 2) =
       Some \<lparr>sym_name = ''limit'', sym_display_name = ''limit'', sym_value = 9,
              sym_flags = SYM_DEFINED, sym_file = ''t'', sym_line = 1\<rparr>
   \<and> symbol_define one_constant_table ''LIMIT'' 9 SYM_CONSTANT ''t'' 2 = (None, one_constant_table)"
proof -
  have ok0: "table_ok (symbol_table_create 1024)" by (simp add: table_ok_create)
  have none: "symbol_lookup (symbol_table_create 1024) ''count'' = None"
    by (simp add: symbol_lookup_create)
  from symbol_define_cases [OF ok0, of "''count''" 1 SYM_DEFINED "''t''" 1] none
  have w1: "fst (symbol_define (symbol_table_create 1024) ''count'' 1 SYM_DEFINED ''t'' 1) =
       Some \<lparr>sym_name = ''count'', sym_display_name = ''count'', sym_value = 1,
              sym_flags = SYM_DEFINED, sym_file = ''t'', sym_line = 1\<rparr>"
    by (simp add: sym_flag_defs)
  from symbol_define_cases [OF one_symbol_table_ok, of "''COUNT''" 5
      "SYM_ZEROPAGE OR SYM_FORCE_UPDATE" "''t''" 2] one_symbol_table_lookup
  have w2: "fst (symbol_define one_symbol_table ''COUNT'' 5 (SYM_ZEROPAGE OR SYM_FORCE_UPDATE) ''t'' 2) =
       Some \<lparr>sym_name = ''count'', sym_display_name = ''count'', sym_value = 5,
              sym_flags = SYM_DEFINED OR SYM_ZEROPAGE, sym_file = ''t'', sym_line = 1\<rparr>"
    by (simp add: sym_flag_defs)
  from symbol_define_cases [OF one_constant_table_ok, of "''LIMIT''" 9
      "SYM_DEFINED OR SYM_FORCE_UPDATE" "''t''" 2] one_constant_table_lookup
  have w3: "fst (symbol_define one_constant_table ''LIMIT'' 9 (SYM_DEFINED OR SYM_FORCE_UPDATE) ''t'' 2) =
       Some \<lparr>sym_name = ''limit'', sym_display_name = ''limit'', sym_value = 9,
              sym_flags = SYM_DEFINED, sym_file = ''t'', sym_line = 1\<rparr>"
    by (simp add: sym_flag_defs)
  from symbol_define_cases [OF one_constant_table_ok, of "''LIMIT''" 9 SYM_CONSTANT "''t''" 2]
    one_constant_table_lookup
  have w4: "symbol_define one_constant_table ''LIMIT'' 9 SYM_CONSTANT ''t'' 2 = (None, one_constant_table)"
    by (simp add: sym_flag_defs)
  from ok0 none w1 w2 w3 w4 one_symbol_table_ok one_constant_table_ok show ?thesis by simp
qed

text \<open>
  The claim as first stated has the request's flag bits unioned into an existing entry. The
  bit \<open>FORCE_UPDATE\<close> is masked out: redefining the non-constant symbol \<open>count\<close> with the
  flags \<open>DEFINED | FORCE_UPDATE\<close> leaves its flags at \<open>DEFINED\<close>.
\<close>

theorem symbol_define_drops_force_update:
  "symbol_lookup one_symbol_table ''COUNT'' =
     Some \<lparr>sym_name = ''count'', sym_display_name = ''count'', sym_value = 1,
            sym_flags = SYM_DEFINED, sym_file = ''t'', sym_line = 1\<rparr>
   \<and> SYM_DEFINED AND SYM_CONSTANT = 0
   \<and> fst (symbol_define one_symbol_table ''COUNT'' 5 (SYM_DEFINED OR SYM_FORCE_UPDATE) ''t'' 2) =
     Some \<lparr>sym_name = ''count'', sym_display_name = ''count'', sym_value = 5,
            sym_flags = SYM_DEFINED, sym_file = ''t'', sym_line = 1\<rparr>
   \<and> SYM_DEFINED \<noteq> SYM_DEFINED OR (SYM_DEFINED OR SYM_FORCE_UPDATE) OR SYM_DEFINED"
proof -
  have nc: "sym_flags \<lparr>sym_name = ''count'', sym_display_name = ''count'', sym_value = 1,
            sym_flags = SYM_DEFINED, sym_file = ''t'', sym_line = 1\<rparr> AND SYM_CONSTANT = 0"
    by (simp add: sym_flag_defs)
  from symbol_define_plain [OF one_symbol_table_ok one_symbol_table_lookup nc,
      of 5 "SYM_DEFINED OR SYM_FORCE_UPDATE" "''t''" 2]
  show ?thesis
    by (auto simp: one_symbol_table_lookup sym_flag_defs)
qed

subsection \<open>Anonymous labels in expressions\<close>

lemma res_defined_eval_unary [simp]: "res_defined (eval_unary op r) = res_defined r"
  by (cases op) (simp_all add: eval_unary_def)

lemma res_defined_eval_binary [simp]:
  "res_defined (eval_binary op l r) = (res_defined l \<and> res_defined r)"
  by (simp add: eval_binary_def Let_def)

















subsection \<open>Anonymous forward references\<close>

text \<open>
  Claim C6. The cursor of the forward list is to make each forward reference resolve to the
  label that follows it: \<open>symbols.h\<close> says of \<open>anon_advance_forward\<close> that it is ``called
  after processing each + label def'', and the syntax guide glosses \<open>beq +\<close> as ``branch to
  next +''. \<open>expr_eval\<close> calls it after each reference instead, and no label definition moves
  the cursor, so the cursor counts the references evaluated, not the labels passed. In the
  source \<open>*=$1000\<close>, \<open>+ nop\<close>, \<open>bne +\<close>, \<open>+ rts\<close> pass 1 records the labels \<open>$1000\<close> and
  \<open>$1003\<close>; in pass 2 the one reference, at \<open>$1001\<close>, reads slot 0 and is assembled as
  \<open>D0 FD\<close>, a branch back to the label at \<open>$1000\<close> that precedes it, where the label that
  follows it, at \<open>$1003\<close>, needs the offset 0. The assembly reports no error.
\<close>

theorem forward_reference_reads_passed_label:
  "forward_addresses (assembler_pass1 (assembler_reset (assembler_create 100 100 0x0801))
      forward_branch_source ''t'') = [0x1000, 0x1003]
   \<and> output_bytes (assembler_assemble_string (assembler_create 100 100 0x0801)
        forward_branch_source ''t'') 0x1000 4 = Some (0, [0xEA, 0xD0, 0xFD, 0x60])
   \<and> assembler_calc_branch_offset 0x1000 0x1001 = - 3
   \<and> assembler_calc_branch_offset 0x1003 0x1001 = 0"
  by code_simp

subsection \<open>Relative branches\<close>







subsection \<open>Runs of plus signs in the lexer\<close>

lemma peek_remaining: "peek lx = (case remaining lx of [] \<Rightarrow> CHR 0x00 | c # _ \<Rightarrow> c)"
  by (cases "lex_current lx < length (lex_source lx)")
     (simp_all add: peek_def remaining_def hd_drop_conv_nth [symmetric] list.case_eq_if)

lemma remaining_current [simp]:
  "remaining (lx\<lparr>lex_current := lex_current lx + k\<rparr>) = drop k (remaining lx)"
  by (simp add: remaining_def add.commute)

lemma remaining_advance [simp]: "remaining (advance lx) = drop 1 (remaining lx)"
  by (simp add: advance_def remaining_def)

lemma plus_char_facts:
  "\<not> is_digit (CHR ''+'')" "\<not> is_alpha (CHR ''+'')" "\<not> is_alnum (CHR ''+'')"
  "\<not> is_binary_digit (CHR ''+'')"
  by code_simp+

lemma alpha_not_special:
  assumes "is_alpha c"
  shows "c \<noteq> CHR ''+''" "c \<noteq> CHR 0x00" "c \<noteq> CHR '' ''" "c \<noteq> CHR 0x09" "c \<noteq> CHR 0x0D"
    "c \<noteq> CHR '';''" "c \<noteq> CHR 0x0A" "c \<noteq> CHR ''$''" "c \<noteq> CHR ''%''" "c \<noteq> CHR 0x27"
    "c \<noteq> CHR 0x22" "\<not> is_digit c" "is_alnum c"
proof -
  have "\<not> is_alpha (CHR ''+'')" "\<not> is_alpha (CHR 0x00)" "\<not> is_alpha (CHR '' '')"
    "\<not> is_alpha (CHR 0x09)" "\<not> is_alpha (CHR 0x0D)" "\<not> is_alpha (CHR '';'')"
    "\<not> is_alpha (CHR 0x0A)" "\<not> is_alpha (CHR ''$'')" "\<not> is_alpha (CHR ''%'')"
    "\<not> is_alpha (CHR 0x27)" "\<not> is_alpha (CHR 0x22)"
    by code_simp+
  with assms show "c \<noteq> CHR ''+''" "c \<noteq> CHR 0x00" "c \<noteq> CHR '' ''" "c \<noteq> CHR 0x09"
    "c \<noteq> CHR 0x0D" "c \<noteq> CHR '';''" "c \<noteq> CHR 0x0A" "c \<noteq> CHR ''$''" "c \<noteq> CHR ''%''"
    "c \<noteq> CHR 0x27" "c \<noteq> CHR 0x22"
    by auto
  have u: "of_char (CHR ''_'') = (95::nat)" by code_simp
  from assms u show "\<not> is_digit c" by (auto simp: is_alpha_def is_digit_def)
  from assms show "is_alnum c" by (simp add: is_alnum_def)
qed

lemma take_length_takeWhile [simp]: "take (length (takeWhile p xs)) xs = takeWhile p xs"
  by (rule takeWhile_eq_take [symmetric])

lemma advance_fields [simp]:
  "lex_source (advance lx) = lex_source lx" "lex_line_start (advance lx) = lex_line_start lx"
  "lex_line (advance lx) = lex_line lx" "lex_current (advance lx) = lex_current lx + 1"
  by (simp_all add: advance_def)

lemma advance_while_fields [simp]:
  "lex_source (advance_while p lx) = lex_source lx"
  "lex_line_start (advance_while p lx) = lex_line_start lx"
  "lex_line (advance_while p lx) = lex_line lx"
  "lex_current (advance_while p lx) = lex_current lx + length (takeWhile p (remaining lx))"
  by (simp_all add: advance_while_def)

lemma remaining_advance_while [simp]:
  "remaining (advance_while p lx) = dropWhile p (remaining lx)"
  by (simp add: advance_while_def dropWhile_eq_drop)

lemma make_token_fields [simp]:
  "tok_type (make_token lx ty start) = ty"
  "tok_number (make_token lx ty start) = 0"
  "tok_line (make_token lx ty start) = lex_line lx"
  by (simp_all add: make_token_def)

lemma make_token_text:
  assumes "lex_source lx' = lex_source lx" and "lex_current lx' = lex_current lx + k"
  shows "tok_text (make_token lx' ty (lex_current lx)) = take k (remaining lx)"
  using assms by (simp add: make_token_def remaining_def)

lemma chars_before_cong:
  "lex_source lx' = lex_source lx \<Longrightarrow> lex_line_start lx' = lex_line_start lx \<Longrightarrow>
   chars_before lx' start = chars_before lx start"
  by (simp add: chars_before_def)

lemma lexer_next_identifier:
  assumes rem: "remaining lx = c # post" and c: "is_alpha c"
  shows "tok_type (fst (lexer_next lx)) = TOK_IDENTIFIER
       \<and> tok_text (fst (lexer_next lx)) = takeWhile is_alnum (c # post)
       \<and> remaining (snd (lexer_next lx)) = dropWhile is_alnum (c # post)"
proof -
  note f = alpha_not_special [OF c]
  from rem f have sk: "skip_whitespace lx = lx"
    by (simp add: skip_whitespace_def)
  from rem have pk: "peek lx = c" by (simp add: peek_remaining)
  have nx: "lexer_next lx = parse_identifier (advance lx) (lex_current lx)"
    using f c pk by (simp add: lexer_next_def sk is_at_end_def Let_def)
  have tx: "tok_text (make_token (advance_while is_alnum (advance lx)) TOK_IDENTIFIER (lex_current lx))
            = take (1 + length (takeWhile is_alnum post)) (remaining lx)"
    by (rule make_token_text) (simp_all add: rem)
  from rem f show ?thesis
    by (simp add: nx parse_identifier_def Let_def tx)
qed

lemma takeWhile_plus_run:
  "c \<noteq> CHR ''+'' \<Longrightarrow>
   takeWhile (\<lambda>d. d = CHR ''+'') (replicate m (CHR ''+'') @ c # post) = replicate m (CHR ''+'')"
  by (induction m) simp_all

lemma dropWhile_plus_run:
  "c \<noteq> CHR ''+'' \<Longrightarrow>
   dropWhile (\<lambda>d. d = CHR ''+'') (replicate m (CHR ''+'') @ c # post) = c # post"
  by (induction m) simp_all

text \<open>The four examples of claim C8: \<open>+foo\<close> at column 0 and after a colon is one
  macro-call token; in \<open>1+foo\<close> and \<open>A+B\<close> the plus sign is the operator and the identifier
  is the next token.\<close>

lemma lexer_plus_examples:
  "token_kinds ''+foo'' = [(TOK_MACRO_CALL, ''+foo''), (TOK_EOF, [])]"
  "token_kinds ''label: +foo'' =
     [(TOK_IDENTIFIER, ''label''), (TOK_COLON, '':''), (TOK_MACRO_CALL, ''+foo''), (TOK_EOF, [])]"
  "token_kinds ''1+foo'' = [(TOK_NUMBER, ''1''), (TOK_PLUS, ''+''), (TOK_IDENTIFIER, ''foo''), (TOK_EOF, [])]"
  "token_kinds ''A+B'' = [(TOK_IDENTIFIER, ''A''), (TOK_PLUS, ''+''), (TOK_IDENTIFIER, ''B''), (TOK_EOF, [])]"
  by code_simp+

text \<open>Claim C8, as written: a run of plus signs before an identifier start is a macro call
  (of run length 1) when only spaces and tabs, or a colon, stand to its left, and the \<open>+\<close>
  operator followed by the identifier otherwise. The source \<open>++foo\<close> refutes it: nothing
  stands to the left of the run, and \<open>parse_macro_or_anon\<close> returns neither a macro call nor
  the \<open>+\<close> operator but one anonymous-forward-label token of count 2, followed by the
  identifier \<open>foo\<close>.\<close>

theorem double_plus_at_line_start:
  "only_whitespace_before (chars_before (lexer_init ''++foo'') 0)
   \<and> token_kinds ''++foo'' = [(TOK_ANON_FWD, ''++''), (TOK_IDENTIFIER, ''foo''), (TOK_EOF, [])]
   \<and> tok_number (fst (lexer_next (lexer_init ''++foo''))) = 2"
  by code_simp

text \<open>Claim C8, as amended: when the lexer stands at a run of \<open>n\<close> plus signs followed by an
  identifier-start character, then: a run of length 1 with only spaces and tabs (or a colon as
  nearest other character) to its left gives one macro-call token whose text is the plus sign
  and the identifier; a run of length 1 in any other context gives the \<open>+\<close> operator and
  leaves the lexer at the identifier; a run of length 2 or more gives, in every context, one
  anonymous-forward-label token carrying the run length and leaves the lexer at the identifier;
  and a lexer standing at the identifier returns it as the next token.\<close>

theorem lexer_plus_run:
  assumes rem: "remaining lx = replicate n (CHR ''+'') @ c # post" and n: "0 < n"
    and c: "is_alpha c"
  shows "(n = 1 \<and> only_whitespace_before (chars_before lx (lex_current lx)) \<longrightarrow>
            tok_type (fst (lexer_next lx)) = TOK_MACRO_CALL
          \<and> tok_text (fst (lexer_next lx)) = CHR ''+'' # takeWhile is_alnum (c # post)
          \<and> remaining (snd (lexer_next lx)) = dropWhile is_alnum (c # post))
       \<and> (n = 1 \<and> \<not> only_whitespace_before (chars_before lx (lex_current lx)) \<longrightarrow>
            tok_type (fst (lexer_next lx)) = TOK_PLUS
          \<and> tok_text (fst (lexer_next lx)) = ''+''
          \<and> remaining (snd (lexer_next lx)) = c # post)
       \<and> (1 < n \<longrightarrow>
            tok_type (fst (lexer_next lx)) = TOK_ANON_FWD
          \<and> tok_number (fst (lexer_next lx)) = of_nat n
          \<and> tok_text (fst (lexer_next lx)) = replicate n (CHR ''+'')
          \<and> remaining (snd (lexer_next lx)) = c # post)
       \<and> (\<forall>lx'. remaining lx' = c # post \<longrightarrow>
            tok_type (fst (lexer_next lx')) = TOK_IDENTIFIER
          \<and> tok_text (fst (lexer_next lx')) = takeWhile is_alnum (c # post))"
proof -
  note f = alpha_not_special [OF c]
  from n obtain m where m: "n = Suc m" by (cases n) auto
  with rem have rem': "remaining lx = CHR ''+'' # replicate m (CHR ''+'') @ c # post" by simp
  then have sk: "skip_whitespace lx = lx"
    by (simp add: skip_whitespace_def)
  from rem' have pk: "peek lx = CHR ''+''" by (simp add: peek_remaining)
  have nx: "lexer_next lx = parse_macro_or_anon (advance lx) (lex_current lx)"
    using pk plus_char_facts by (simp add: lexer_next_def sk is_at_end_def Let_def)
  define lx1 where "lx1 = advance_while (\<lambda>d. d = CHR ''+'') (advance lx)"
  have r1: "remaining lx1 = c # post"
    by (simp add: lx1_def rem' dropWhile_plus_run f)
  have c1: "lex_current lx1 = lex_current lx + 1 + m" "lex_source lx1 = lex_source lx"
    "lex_line_start lx1 = lex_line_start lx"
    by (simp_all add: lx1_def rem' takeWhile_plus_run f)
  have p1: "peek lx1 = c" by (simp add: peek_remaining r1)
  have cb: "chars_before lx1 (lex_current lx) = chars_before lx (lex_current lx)"
    by (rule chars_before_cong) (simp_all add: c1)
  have pm: "parse_macro_or_anon (advance lx) (lex_current lx) =
      (if m = 0 then
         (if only_whitespace_before (chars_before lx (lex_current lx)) then
            (make_token (advance_while is_alnum lx1) TOK_MACRO_CALL (lex_current lx),
             advance_while is_alnum lx1)
          else (make_token lx1 TOK_PLUS (lex_current lx), lx1))
       else ((make_token lx1 TOK_ANON_FWD (lex_current lx))\<lparr>tok_number := word_of_int (1 + int m)\<rparr>,
             lx1))"
    using c c1 p1 cb
    by (simp add: parse_macro_or_anon_def Let_def lx1_def [symmetric])
  have t1: "tok_text (make_token lx1 ty (lex_current lx)) = replicate (Suc m) (CHR ''+'')" for ty
  proof -
    have "tok_text (make_token lx1 ty (lex_current lx)) = take (1 + m) (remaining lx)"
      by (rule make_token_text) (simp_all add: c1)
    then show ?thesis by (simp add: rem')
  qed
  have t2: "tok_text (make_token (advance_while is_alnum lx1) ty (lex_current lx))
            = CHR ''+'' # takeWhile is_alnum (c # post)" if "m = 0" for ty
  proof -
    have "tok_text (make_token (advance_while is_alnum lx1) ty (lex_current lx))
          = take (1 + m + length (takeWhile is_alnum (c # post))) (remaining lx)"
      by (rule make_token_text) (simp_all add: c1 r1)
    with that show ?thesis by (simp add: rem')
  qed
  from lexer_next_identifier [OF _ c]
  have idn: "\<forall>lx'. remaining lx' = c # post \<longrightarrow>
            tok_type (fst (lexer_next lx')) = TOK_IDENTIFIER
          \<and> tok_text (fst (lexer_next lx')) = takeWhile is_alnum (c # post)"
    by blast
  from m r1 t1 t2 idn show ?thesis
    by (auto simp: nx pm)
qed

theorem lexer_plus_run_witness:
  "remaining (lexer_at ''+foo'' 0) = replicate 1 (CHR ''+'') @ CHR ''f'' # ''oo''
   \<and> is_alpha (CHR ''f'')
   \<and> only_whitespace_before (chars_before (lexer_at ''+foo'' 0) 0)
   \<and> tok_type (fst (lexer_next (lexer_at ''+foo'' 0))) = TOK_MACRO_CALL
   \<and> tok_text (fst (lexer_next (lexer_at ''+foo'' 0))) = ''+foo''
   \<and> \<not> only_whitespace_before (chars_before (lexer_at ''1+foo'' 1) 1)
   \<and> tok_type (fst (lexer_next (lexer_at ''1+foo'' 1))) = TOK_PLUS
   \<and> remaining (snd (lexer_next (lexer_at ''1+foo'' 1))) = ''foo''
   \<and> tok_type (fst (lexer_next (lexer_at ''A++B'' 1))) = TOK_ANON_FWD
   \<and> tok_number (fst (lexer_next (lexer_at ''A++B'' 1))) = 2
   \<and> tok_type (fst (lexer_next (snd (lexer_next (lexer_at ''A++B'' 1))))) = TOK_IDENTIFIER"
proof -
  have r1: "remaining (lexer_at ''+foo'' 0) = replicate 1 (CHR ''+'') @ CHR ''f'' # ''oo''"
    and r2: "remaining (lexer_at ''1+foo'' 1) = replicate 1 (CHR ''+'') @ CHR ''f'' # ''oo''"
    and r3: "remaining (lexer_at ''A++B'' 1) = replicate 2 (CHR ''+'') @ CHR ''B'' # []"
    by (simp_all add: remaining_def lexer_at_def numeral_2_eq_2)
  have a: "is_alpha (CHR ''f'')" "is_alpha (CHR ''B'')" by code_simp+
  have w: "only_whitespace_before (chars_before (lexer_at ''+foo'' 0) 0)"
    "\<not> only_whitespace_before (chars_before (lexer_at ''1+foo'' 1) 1)"
    by code_simp+
  have cur: "lex_current (lexer_at ''+foo'' 0) = 0" "lex_current (lexer_at ''1+foo'' 1) = 1"
    by (simp_all add: lexer_at_def)
  from lexer_plus_run [OF r1 _ a(1)] w cur
  have p1: "tok_type (fst (lexer_next (lexer_at ''+foo'' 0))) = TOK_MACRO_CALL
     \<and> tok_text (fst (lexer_next (lexer_at ''+foo'' 0))) = CHR ''+'' # takeWhile is_alnum ''foo''"
    by simp
  have tw: "takeWhile is_alnum ''foo'' = ''foo''" by code_simp
  from lexer_plus_run [OF r2 _ a(1)] w cur
  have p2: "tok_type (fst (lexer_next (lexer_at ''1+foo'' 1))) = TOK_PLUS
     \<and> remaining (snd (lexer_next (lexer_at ''1+foo'' 1))) = ''foo''"
    by simp
  from lexer_plus_run [OF r3 _ a(2)]
  have p3: "tok_type (fst (lexer_next (lexer_at ''A++B'' 1))) = TOK_ANON_FWD
     \<and> tok_number (fst (lexer_next (lexer_at ''A++B'' 1))) = 2
     \<and> remaining (snd (lexer_next (lexer_at ''A++B'' 1))) = ''B''"
    and p4: "\<forall>lx'. remaining lx' = ''B'' \<longrightarrow> tok_type (fst (lexer_next lx')) = TOK_IDENTIFIER"
    by simp_all
  from p3 p4 have p5: "tok_type (fst (lexer_next (snd (lexer_next (lexer_at ''A++B'' 1))))) = TOK_IDENTIFIER"
    by blast
  from r1 a w p1 tw p2 p3 p5 show ?thesis by simp
qed

end
